theory Spec2Isabelle
  imports Main "HOL-Library.Sublist" "HOL-Library.Char_ord" "HOL-Library.List_Lexorder"
begin

section \<open>Python values and strings\<close>

text \<open>
  The parsers work on Python strings and on trees decoded by \<open>json.loads\<close>.
  A string is modelled as a \<open>string\<close> whose characters are the code points below 256,
  so \<open>length\<close> is Python's \<open>len\<close>, the digits of \<open>\d\<close> are \<open>0\<close> to \<open>9\<close> and
  \<open>str.lower\<close> acts character by character. A decoded tree is a \<open>json\<close> value; its
  numbers are the integers. An object is the list of its items in iteration order (a
  Python dict has each key once).
\<close>

datatype json =
    JNull
  | JBool bool
  | JNum int
  | JStr string
  | JArr "json list"
  | JObj "(string \<times> json) list"

text \<open>
  The exceptions the modelled code can raise. \<open>CannotExtractProductId\<close> and
  \<open>CannotGetProductInfo\<close> are the two \<open>ValueError\<close>s of \<open>product_parser.py\<close>
  (their messages are not ASCII); \<open>ValueError\<close> and \<open>Exception\<close> carry the message
  of the ones raised in \<open>video_parser.py\<close>.
\<close>

datatype error =
    AttributeError
  | TypeError
  | KeyError
  | IndexError
  | CannotExtractProductId
  | CannotGetProductInfo
  | ValueError string
  | Exception string

text \<open>Truth value of a Python object, as \<open>if x:\<close> and \<open>not x\<close> read it.\<close>

fun truthy :: "json \<Rightarrow> bool" where
  "truthy JNull = False"
| "truthy (JBool b) = b"
| "truthy (JNum n) = (n \<noteq> 0)"
| "truthy (JStr s) = (s \<noteq> [])"
| "truthy (JArr xs) = (xs \<noteq> [])"
| "truthy (JObj kvs) = (kvs \<noteq> [])"

text \<open>\<open>len(x)\<close>: a number, a boolean and \<open>None\<close> have no length.\<close>

fun py_len :: "json \<Rightarrow> error + nat" where
  "py_len (JStr s) = Inr (length s)"
| "py_len (JArr xs) = Inr (length xs)"
| "py_len (JObj kvs) = Inr (length kvs)"
| "py_len _ = Inl TypeError"

text \<open>\<open>p in s\<close> on two strings: \<open>p\<close> occurs in \<open>s\<close> as a contiguous substring.\<close>

fun str_in :: "string \<Rightarrow> string \<Rightarrow> bool" where
  "str_in p [] = (p = [])"
| "str_in p (c # cs) = (prefix p (c # cs) \<or> str_in p cs)"

text \<open>
  \<open>str.lower\<close> on the code points below 256: the letters \<open>A\<close> to \<open>Z\<close> and the
  capital letters 192 to 222 (but the multiplication sign 215) move up by 32.
\<close>

definition lower_char :: "char \<Rightarrow> char" where
  "lower_char c =
     (let n = (of_char c :: nat) in
      if (65 \<le> n \<and> n \<le> 90) \<or> (192 \<le> n \<and> n \<le> 222 \<and> n \<noteq> 215)
      then char_of (n + 32) else c)"

definition lower :: "string \<Rightarrow> string" where
  "lower s = map lower_char s"

section \<open>The validity predicate of product images\<close>

definition exclude_patterns :: "string list" where
  "exclude_patterns =
     [''icon'', ''logo'', ''avatar'', ''emoji'', ''badge'',
      ''loading'', ''placeholder'', ''default'',
      ''1x1'', ''2x2'', ''blank'', ''transparent'',
      ''sprite'', ''btn'', ''button'']"

definition image_exts :: "string list" where
  "image_exts = [''.jpg'', ''.jpeg'', ''.png'', ''.webp'']"

definition bytedance_cdns :: "string list" where
  "bytedance_cdns = [''ecombdimg.com'', ''bytetos.com'', ''douyinpic.com'', ''byteimg.com'']"

text \<open>
  \<open>_is_valid_product_image\<close> on a string of at least 20 characters: the loop over
  \<open>exclude_patterns\<close> and the final test on extension and host, all on the lowered URL.
\<close>

definition valid_lowered :: "string \<Rightarrow> bool" where
  "valid_lowered url_lower =
     (if list_ex (\<lambda>pattern. str_in pattern url_lower) exclude_patterns then False
      else
        let is_image_ext = list_ex (\<lambda>ext. str_in ext url_lower) image_exts;
            is_bytedance_cdn = list_ex (\<lambda>cdn. str_in cdn url_lower) bytedance_cdns
        in if \<not> is_image_ext \<and> \<not> is_bytedance_cdn then False else True)"

text \<open>
  \<open>_is_valid_product_image\<close>. The miner calls it on values that need not be strings:
  \<open>len\<close> raises on a number or \<open>True\<close>, and \<open>.lower()\<close> on a list or a dict of 20
  entries or more.
\<close>

definition is_valid_product_image :: "json \<Rightarrow> error + bool" where
  "is_valid_product_image url =
     (if \<not> truthy url then Inr False
      else case py_len url of
        Inl e \<Rightarrow> Inl e
      | Inr n \<Rightarrow>
          if n < 20 then Inr False
          else (case url of
                  JStr s \<Rightarrow> Inr (valid_lowered (lower s))
                | _ \<Rightarrow> Inl AttributeError))"

section \<open>Python's text of a value\<close>

text \<open>
  \<open>str(value)\<close> of a dict is its \<open>repr\<close>: items as \<open>key: value\<close> separated by a
  comma and a space, strings quoted and escaped, \<open>None\<close>, \<open>True\<close> and \<open>False\<close> for
  the constants.
\<close>

function dec_nat :: "nat \<Rightarrow> string" where
  "dec_nat n = (if n < 10 then [char_of (48 + n)] else dec_nat (n div 10) @ [char_of (48 + n mod 10)])"
  by pat_completeness auto
termination
  by (relation "measure (\<lambda>n. n)") auto

definition dec_int :: "int \<Rightarrow> string" where
  "dec_int i = (if i < 0 then CHR ''-'' # dec_nat (nat (- i)) else dec_nat (nat i))"

definition hex_digit :: "nat \<Rightarrow> char" where
  "hex_digit d = (if d < 10 then char_of (48 + d) else char_of (87 + d))"

text \<open>
  One character inside a quoted string: the quote and the backslash are escaped, then
  tab, newline and carriage return, then the control characters and the code points
  above 126 that are not printable (128 to 160 and 173) as \<open>\xhh\<close>.
\<close>

definition repr_char :: "char \<Rightarrow> char \<Rightarrow> string" where
  "repr_char quote c =
     (let n = (of_char c :: nat) in
      if c = quote \<or> n = 92 then [char_of (92 :: nat), c]
      else if n = 9 then [char_of (92 :: nat), CHR ''t'']
      else if n = 10 then [char_of (92 :: nat), CHR ''n'']
      else if n = 13 then [char_of (92 :: nat), CHR ''r'']
      else if n < 32 \<or> n = 127 \<or> (128 \<le> n \<and> n \<le> 160) \<or> n = 173
        then [char_of (92 :: nat), CHR ''x'', hex_digit (n div 16), hex_digit (n mod 16)]
      else [c])"

text \<open>The quote is the single quote, unless the string has one and has no double quote.\<close>

definition repr_str :: "string \<Rightarrow> string" where
  "repr_str s =
     (let quote = (if char_of (39 :: nat) \<in> set s \<and> char_of (34 :: nat) \<notin> set s
                   then char_of (34 :: nat) else char_of (39 :: nat))
      in quote # concat (map (repr_char quote) s) @ [quote])"

fun join :: "string \<Rightarrow> string list \<Rightarrow> string" where
  "join sep [] = []"
| "join sep [x] = x"
| "join sep (x # y # ys) = x @ sep @ join sep (y # ys)"

fun py_repr :: "json \<Rightarrow> string"
  and repr_elems :: "json list \<Rightarrow> string list"
  and repr_items :: "(string \<times> json) list \<Rightarrow> string list" where
  "py_repr JNull = ''None''"
| "py_repr (JBool b) = (if b then ''True'' else ''False'')"
| "py_repr (JNum n) = dec_int n"
| "py_repr (JStr s) = repr_str s"
| "py_repr (JArr xs) = ''['' @ join '', '' (repr_elems xs) @ '']''"
| "py_repr (JObj kvs) = ''{'' @ join '', '' (repr_items kvs) @ ''}''"
| "repr_elems [] = []"
| "repr_elems (x # xs) = py_repr x # repr_elems xs"
| "repr_items [] = []"
| "repr_items ((k, v) # kvs) = (repr_str k @ '': '' @ py_repr v) # repr_items kvs"

section \<open>Operations on decoded values\<close>

fun is_dict :: "json \<Rightarrow> bool" where
  "is_dict (JObj kvs) = True"
| "is_dict _ = False"

fun is_list :: "json \<Rightarrow> bool" where
  "is_list (JArr xs) = True"
| "is_list _ = False"

text \<open>\<open>d.get(key, default)\<close> on the items of a dict.\<close>

definition dict_get :: "(string \<times> json) list \<Rightarrow> string \<Rightarrow> json \<Rightarrow> json" where
  "dict_get d k dflt = (case map_of d k of Some v \<Rightarrow> v | None \<Rightarrow> dflt)"

text \<open>\<open>x.get(key, default)\<close>: only a dict has the method.\<close>

definition py_get :: "json \<Rightarrow> string \<Rightarrow> json \<Rightarrow> error + json" where
  "py_get x k dflt = (case x of JObj d \<Rightarrow> Inr (dict_get d k dflt) | _ \<Rightarrow> Inl AttributeError)"

text \<open>
  \<open>x[0]\<close>: the first element of a list, the first character of a string; a decoded
  dict has string keys only, so the key 0 is missing; other values have no subscript.
\<close>

fun py_first :: "json \<Rightarrow> error + json" where
  "py_first (JArr (x # xs)) = Inr x"
| "py_first (JArr []) = Inl IndexError"
| "py_first (JStr (c # cs)) = Inr (JStr [c])"
| "py_first (JStr []) = Inl IndexError"
| "py_first (JObj d) = Inl KeyError"
| "py_first _ = Inl TypeError"

text \<open>\<open>for x in xs\<close>: the elements of a list, the characters of a string, the keys of a dict.\<close>

fun py_iter :: "json \<Rightarrow> error + json list" where
  "py_iter (JArr xs) = Inr xs"
| "py_iter (JStr s) = Inr (map (\<lambda>c. JStr [c]) s)"
| "py_iter (JObj d) = Inr (map (\<lambda>kv. JStr (fst kv)) d)"
| "py_iter _ = Inl TypeError"

text \<open>\<open>k in x\<close> for a string \<open>k\<close>: substring of a string, element of a list, key of a dict.\<close>

fun py_contains :: "string \<Rightarrow> json \<Rightarrow> error + bool" where
  "py_contains k (JStr s) = Inr (str_in k s)"
| "py_contains k (JArr xs) = Inr (JStr k \<in> set xs)"
| "py_contains k (JObj d) = Inr (k \<in> set (map fst d))"
| "py_contains k _ = Inl TypeError"

text \<open>
  \<open>s.replace(old, new)\<close>: the occurrences of \<open>old\<close> from left to right, without
  overlap. An empty \<open>old\<close> puts \<open>new\<close> before every character and at the end.
\<close>

function replace_from :: "string \<Rightarrow> string \<Rightarrow> string \<Rightarrow> string" where
  "replace_from old new [] = []"
| "replace_from old new (c # cs) =
     (if old \<noteq> [] \<and> prefix old (c # cs)
      then new @ replace_from old new (drop (length old) (c # cs))
      else c # replace_from old new cs)"
  by pat_completeness auto
termination
  by (relation "measure (\<lambda>(old, new, s). length s)") auto

definition replace :: "string \<Rightarrow> string \<Rightarrow> string \<Rightarrow> string" where
  "replace old new s =
     (if old = [] then new @ concat (map (\<lambda>c. c # new) s) else replace_from old new s)"

definition py_replace :: "json \<Rightarrow> string \<Rightarrow> string \<Rightarrow> error + json" where
  "py_replace x old new =
     (case x of JStr s \<Rightarrow> Inr (JStr (replace old new s)) | _ \<Rightarrow> Inl AttributeError)"

text \<open>\<open>a or b\<close>.\<close>

definition py_or :: "json \<Rightarrow> json \<Rightarrow> json" where
  "py_or a b = (if truthy a then a else b)"

text \<open>\<open>x == 0\<close>: the number 0, and \<open>False\<close>, which Python counts as 0.\<close>

definition eq_zero :: "json \<Rightarrow> bool" where
  "eq_zero x = (x = JNum 0 \<or> x = JBool False)"

text \<open>Sequencing of steps that may raise.\<close>

definition bind :: "error + 'a \<Rightarrow> ('a \<Rightarrow> error + 'b) \<Rightarrow> error + 'b" where
  "bind m f = (case m of Inl e \<Rightarrow> Inl e | Inr x \<Rightarrow> f x)"

text \<open>
  \<open>x.get(a, {}).get(b, default)\<close> followed by the pattern
  \<open>if x: url_list = x.get('url_list', []); if url_list: y = url_list[0]\<close>, which
  leaves \<open>y\<close> at its initial \<open>''\<close> otherwise.
\<close>

definition first_url :: "json \<Rightarrow> error + json" where
  "first_url x =
     (if truthy x then
        bind (py_get x ''url_list'' (JArr [])) (\<lambda>url_list.
          if truthy url_list then py_first url_list else Inr (JStr []))
      else Inr (JStr []))"

section \<open>The deep structure miner\<close>

subsection \<open>Targeted mode: \<open>_find_product_in_router\<close>\<close>

definition product_keys :: "string list" where
  "product_keys = [''product'', ''goods'', ''item'', ''productinfo'', ''goodsinfo'', ''data'']"

definition image_terms :: "string list" where
  "image_terms = [''images'', ''img'', ''pic'', ''gallery'']"

text \<open>
  The function returns the first dict under one of \<open>product_keys\<close> whose text mentions
  an image term, searching depth first in iteration order. A nested result is taken
  only if it is truthy (\<open>if result:\<close>).
\<close>

fun find_product_in_router :: "json \<Rightarrow> nat \<Rightarrow> json option"
  and find_in_items :: "(string \<times> json) list \<Rightarrow> nat \<Rightarrow> json option"
  and find_in_list :: "json list \<Rightarrow> nat \<Rightarrow> json option" where
  "find_product_in_router data depth =
     (if depth > 15 then None
      else case data of
        JObj kvs \<Rightarrow> find_in_items kvs depth
      | JArr xs \<Rightarrow> find_in_list xs depth
      | _ \<Rightarrow> None)"
| "find_in_items [] depth = None"
| "find_in_items ((key, v) # rest) depth =
     (if lower key \<in> set product_keys \<and> is_dict v \<and>
         list_ex (\<lambda>k. str_in k (lower (py_repr v))) image_terms
      then Some v
      else if is_dict v \<or> is_list v then
        (case find_product_in_router v (Suc depth) of
           Some r \<Rightarrow> if truthy r then Some r else find_in_items rest depth
         | None \<Rightarrow> find_in_items rest depth)
      else find_in_items rest depth)"
| "find_in_list [] depth = None"
| "find_in_list (item # rest) depth =
     (if is_dict item \<or> is_list item then
        (case find_product_in_router item (Suc depth) of
           Some r \<Rightarrow> if truthy r then Some r else find_in_list rest depth
         | None \<Rightarrow> find_in_list rest depth)
      else find_in_list rest depth)"

subsection \<open>Generic mode: \<open>_extract_images_from_json\<close>\<close>

text \<open>
  The dict \<open>result\<close> of the function: \<open>result['main']\<close>, \<open>result['detail']\<close>,
  \<open>result['title']\<close> and \<open>result['video']\<close> (a string or \<open>None\<close>).
\<close>

record images =
  result_main :: "json list"
  result_detail :: "json list"
  result_title :: string
  result_video :: "string option"

definition empty_result :: images where
  "empty_result = \<lparr>result_main = [], result_detail = [], result_title = [], result_video = None\<rparr>"

definition image_keys :: "string list" where
  "image_keys = [''images'', ''imgs'', ''image_list'', ''pic_list'', ''gallery'', ''photos'']"

definition main_keys :: "string list" where
  "main_keys = [''main_img'', ''main_image'', ''cover'', ''thumb'', ''primary'']"

definition detail_keys :: "string list" where
  "detail_keys = [''detail_images'', ''desc_images'', ''detail_pics'']"

definition title_keys :: "string list" where
  "title_keys = [''title'', ''name'', ''product_name'', ''goods_name'']"

definition video_keys :: "string list" where
  "video_keys = [''video'', ''video_url'', ''video_src'']"

text \<open>\<open>img.get('url') or img.get('src') or img.get('img')\<close> on a dict \<open>img\<close>.\<close>

definition dict_img_url :: "(string \<times> json) list \<Rightarrow> json" where
  "dict_img_url img =
     (let u = dict_get img ''url'' JNull in
      if truthy u then u
      else let s = dict_get img ''src'' JNull in
        if truthy s then s else dict_get img ''img'' JNull)"

text \<open>
  What one element \<open>img\<close> of an image list contributes, the test shared by the three
  loops over such a list: a string that is valid, or the URL of a dict when it is truthy
  and valid. The validity test is reached with whatever the dict holds, and may raise.
\<close>

definition candidate :: "json \<Rightarrow> error + json option" where
  "candidate img =
     (case img of
        JStr s \<Rightarrow>
          (case is_valid_product_image (JStr s) of
             Inl e \<Rightarrow> Inl e
           | Inr ok \<Rightarrow> Inr (if ok then Some (JStr s) else None))
      | JObj d \<Rightarrow>
          (let img_url = dict_img_url d in
           if \<not> truthy img_url then Inr None
           else case is_valid_product_image img_url of
             Inl e \<Rightarrow> Inl e
           | Inr ok \<Rightarrow> Inr (if ok then Some img_url else None))
      | _ \<Rightarrow> Inr None)"

text \<open>The loop under a main-image key.\<close>

fun main_loop :: "json list \<Rightarrow> images \<Rightarrow> error + images" where
  "main_loop [] r = Inr r"
| "main_loop (img # imgs) r =
     (case candidate img of
        Inl e \<Rightarrow> Inl e
      | Inr None \<Rightarrow> main_loop imgs r
      | Inr (Some u) \<Rightarrow> main_loop imgs (r\<lparr>result_main := result_main r @ [u]\<rparr>))"

text \<open>The loop under a detail-image key.\<close>

fun detail_loop :: "json list \<Rightarrow> images \<Rightarrow> error + images" where
  "detail_loop [] r = Inr r"
| "detail_loop (img # imgs) r =
     (case candidate img of
        Inl e \<Rightarrow> Inl e
      | Inr None \<Rightarrow> detail_loop imgs r
      | Inr (Some u) \<Rightarrow> detail_loop imgs (r\<lparr>result_detail := result_detail r @ [u]\<rparr>))"

text \<open>The loop under a generic image-list key: main while it has fewer than 5 entries.\<close>

fun generic_loop :: "json list \<Rightarrow> images \<Rightarrow> error + images" where
  "generic_loop [] r = Inr r"
| "generic_loop (img # imgs) r =
     (case candidate img of
        Inl e \<Rightarrow> Inl e
      | Inr None \<Rightarrow> generic_loop imgs r
      | Inr (Some u) \<Rightarrow>
          if length (result_main r) < 5
          then generic_loop imgs (r\<lparr>result_main := result_main r @ [u]\<rparr>)
          else generic_loop imgs (r\<lparr>result_detail := result_detail r @ [u]\<rparr>))"

text \<open>
  The body of \<open>for key, value in data.items()\<close> up to the recursive call: title,
  video, main keys, detail keys, generic image-list keys, in this order.
\<close>

definition scan_title :: "string \<Rightarrow> json \<Rightarrow> images \<Rightarrow> images" where
  "scan_title key_lower v r =
     (case v of
        JStr s \<Rightarrow> if key_lower \<in> set title_keys then r\<lparr>result_title := s\<rparr> else r
      | _ \<Rightarrow> r)"

definition scan_video :: "string \<Rightarrow> json \<Rightarrow> images \<Rightarrow> images" where
  "scan_video key_lower v r =
     (case v of
        JStr s \<Rightarrow> if key_lower \<in> set video_keys then r\<lparr>result_video := Some s\<rparr> else r
      | _ \<Rightarrow> r)"

definition scan_main :: "string \<Rightarrow> json \<Rightarrow> images \<Rightarrow> error + images" where
  "scan_main key_lower v r =
     (if list_ex (\<lambda>k. str_in k key_lower) main_keys then
        (case v of
           JStr s \<Rightarrow>
             (case is_valid_product_image (JStr s) of
                Inl e \<Rightarrow> Inl e
              | Inr ok \<Rightarrow> Inr (if ok then r\<lparr>result_main := result_main r @ [JStr s]\<rparr> else r))
         | JArr imgs \<Rightarrow> main_loop imgs r
         | _ \<Rightarrow> Inr r)
      else Inr r)"

definition scan_detail :: "string \<Rightarrow> json \<Rightarrow> images \<Rightarrow> error + images" where
  "scan_detail key_lower v r =
     (if list_ex (\<lambda>k. str_in k key_lower) detail_keys then
        (case v of JArr imgs \<Rightarrow> detail_loop imgs r | _ \<Rightarrow> Inr r)
      else Inr r)"

definition scan_generic :: "string \<Rightarrow> json \<Rightarrow> images \<Rightarrow> error + images" where
  "scan_generic key_lower v r =
     (if list_ex (\<lambda>k. str_in k key_lower) image_keys then
        (case v of JArr imgs \<Rightarrow> generic_loop imgs r | _ \<Rightarrow> Inr r)
      else Inr r)"

definition scan_entry :: "string \<Rightarrow> json \<Rightarrow> images \<Rightarrow> error + images" where
  "scan_entry key v r =
     (let key_lower = lower key in
      case scan_main key_lower v (scan_video key_lower v (scan_title key_lower v r)) of
        Inl e \<Rightarrow> Inl e
      | Inr r3 \<Rightarrow>
          (case scan_detail key_lower v r3 of
             Inl e \<Rightarrow> Inl e
           | Inr r4 \<Rightarrow> scan_generic key_lower v r4))"

text \<open>Merging a nested result into \<open>result\<close>, in a dict and in a list.\<close>

definition merge_in_dict :: "images \<Rightarrow> images option \<Rightarrow> images" where
  "merge_in_dict r nested =
     (case nested of
        None \<Rightarrow> r
      | Some n \<Rightarrow>
          r\<lparr>result_main := result_main r @ result_main n,
            result_detail := result_detail r @ result_detail n,
            result_title := (if result_title r = [] then result_title n else result_title r),
            result_video := (if result_video r = None \<or> result_video r = Some []
                             then result_video n else result_video r)\<rparr>)"

definition merge_in_list :: "images \<Rightarrow> images option \<Rightarrow> images" where
  "merge_in_list r nested =
     (case nested of
        None \<Rightarrow> r
      | Some n \<Rightarrow>
          r\<lparr>result_main := result_main r @ result_main n,
            result_detail := result_detail r @ result_detail n\<rparr>)"

text \<open>\<open>list(dict.fromkeys(xs))\<close>: the first occurrence of each value, in order.\<close>

fun fromkeys :: "'a list \<Rightarrow> 'a list \<Rightarrow> 'a list" where
  "fromkeys seen [] = seen"
| "fromkeys seen (x # xs) = fromkeys (if x \<in> set seen then seen else seen @ [x]) xs"

definition finish :: "images \<Rightarrow> images option" where
  "finish r =
     (let r' = r\<lparr>result_main := fromkeys [] (result_main r),
                 result_detail := fromkeys [] (result_detail r)\<rparr>
      in if result_main r' \<noteq> [] \<or> result_detail r' \<noteq> [] then Some r' else None)"

fun extract_images_from_json :: "json \<Rightarrow> nat \<Rightarrow> error + images option"
  and extract_items :: "(string \<times> json) list \<Rightarrow> nat \<Rightarrow> images \<Rightarrow> error + images"
  and extract_list :: "json list \<Rightarrow> nat \<Rightarrow> images \<Rightarrow> error + images" where
  "extract_images_from_json data depth =
     (if depth > 10 then Inr None
      else case data of
        JObj kvs \<Rightarrow>
          (case extract_items kvs depth empty_result of
             Inl e \<Rightarrow> Inl e | Inr r \<Rightarrow> Inr (finish r))
      | JArr xs \<Rightarrow>
          (case extract_list xs depth empty_result of
             Inl e \<Rightarrow> Inl e | Inr r \<Rightarrow> Inr (finish r))
      | _ \<Rightarrow> Inr (finish empty_result))"
| "extract_items [] depth r = Inr r"
| "extract_items ((key, v) # rest) depth r =
     (case scan_entry key v r of
        Inl e \<Rightarrow> Inl e
      | Inr r5 \<Rightarrow>
          if is_dict v \<or> is_list v then
            (case extract_images_from_json v (Suc depth) of
               Inl e \<Rightarrow> Inl e
             | Inr nested \<Rightarrow> extract_items rest depth (merge_in_dict r5 nested))
          else extract_items rest depth r5)"
| "extract_list [] depth r = Inr r"
| "extract_list (item # rest) depth r =
     (if is_dict item \<or> is_list item then
        (case extract_images_from_json item (Suc depth) of
           Inl e \<Rightarrow> Inl e
         | Inr nested \<Rightarrow> extract_list rest depth (merge_in_list r nested))
      else extract_list rest depth r)"

text \<open>
  The URLs an image list contributes, in order: the values its elements pass to
  \<open>append\<close>. The first validity test that raises ends the loop.
\<close>

fun candidates :: "json list \<Rightarrow> error + json list" where
  "candidates [] = Inr []"
| "candidates (img # imgs) =
     (case candidate img of
        Inl e \<Rightarrow> Inl e
      | Inr c \<Rightarrow>
          (case candidates imgs of
             Inl e \<Rightarrow> Inl e
           | Inr us \<Rightarrow> Inr (case c of None \<Rightarrow> us | Some u \<Rightarrow> u # us)))"

subsection \<open>The valid URLs of an image list\<close>

text \<open>
  The URL an element of an image list offers: a string is the URL itself, a dict offers
  the first truthy value among its \<open>url\<close>, \<open>src\<close> and \<open>img\<close>. The valid URLs of the
  list are the offered ones that \<open>_is_valid_product_image\<close> accepts, in order.
\<close>

fun offered_url :: "json \<Rightarrow> json option" where
  "offered_url (JStr s) = Some (JStr s)"
| "offered_url (JObj d) =
     (if truthy (dict_get d ''url'' JNull) then Some (dict_get d ''url'' JNull)
      else if truthy (dict_get d ''src'' JNull) then Some (dict_get d ''src'' JNull)
      else if truthy (dict_get d ''img'' JNull) then Some (dict_get d ''img'' JNull)
      else None)"
| "offered_url _ = None"

definition offered_urls :: "json list \<Rightarrow> json list" where
  "offered_urls imgs = List.map_filter offered_url imgs"

definition valid_urls :: "json list \<Rightarrow> json list" where
  "valid_urls imgs = filter (\<lambda>u. is_valid_product_image u = Inr True) (offered_urls imgs)"

text \<open>The validity test raises on the value.\<close>

definition test_raises :: "json \<Rightarrow> bool" where
  "test_raises u = (case is_valid_product_image u of Inl e \<Rightarrow> True | Inr b \<Rightarrow> False)"

section \<open>The video parser\<close>

text \<open>
  \<open>VideoInfo\<close>. Its fields hold whatever the decoded response holds, so they are
  \<open>json\<close> values; \<open>statistics\<close> is a dict.
\<close>

record video_info =
  video_id :: json
  title :: json
  author :: json
  author_id :: json
  cover_url :: json
  video_url :: json
  music_url :: json
  duration :: json
  create_time :: json
  statistics :: "(string \<times> json) list"

text \<open>The dict \<open>stats\<close> built from \<open>statistics\<close> by both extraction functions.\<close>

definition stats_of :: "json \<Rightarrow> error + (string \<times> json) list" where
  "stats_of st =
     bind (py_get st ''digg_count'' (JNum 0)) (\<lambda>digg.
     bind (py_get st ''comment_count'' (JNum 0)) (\<lambda>comment.
     bind (py_get st ''share_count'' (JNum 0)) (\<lambda>share.
     bind (py_get st ''collect_count'' (JNum 0)) (\<lambda>collect.
       Inr [(''digg_count'', digg), (''comment_count'', comment),
            (''share_count'', share), (''collect_count'', collect)]))))"

text \<open>
  The music URL: \<open>if music: play_url = music.get('play_url', {})\<close>, then the first
  entry of its \<open>url_list\<close>.
\<close>

definition music_url_of :: "json \<Rightarrow> error + json" where
  "music_url_of music =
     (if truthy music then bind (py_get music ''play_url'' (JObj [])) first_url
      else Inr (JStr []))"

subsection \<open>\<open>_extract_video_info_v2\<close>, on an item of the mobile API\<close>

definition video_url_v2 :: "json \<Rightarrow> error + json" where
  "video_url_v2 play_addr =
     (if truthy play_addr then
        bind (py_get play_addr ''url_list'' (JArr [])) (\<lambda>url_list.
          if truthy url_list then
            bind (py_first url_list) (\<lambda>u.
            bind (py_replace u ''watermark=1'' ''watermark=0'') (\<lambda>u1.
              py_replace u1 ''playwm'' ''play''))
          else Inr (JStr []))
      else Inr (JStr []))"

definition extract_video_info_v2 :: "json \<Rightarrow> error + video_info" where
  "extract_video_info_v2 item =
     bind (py_get item ''aweme_id'' (JStr [])) (\<lambda>vid.
     bind (py_get item ''desc'' (JStr [])) (\<lambda>desc.
     bind (py_get item ''author'' (JObj [])) (\<lambda>author_info.
     bind (py_get author_info ''nickname'' (JStr [])) (\<lambda>nickname.
     bind (py_get author_info ''uid'' (JStr [])) (\<lambda>uid.
     bind (py_get item ''video'' (JObj [])) (\<lambda>video.
     bind (py_get video ''cover'' (JObj [])) (\<lambda>cover.
     bind (first_url cover) (\<lambda>cover_url.
     bind (py_get video ''play_addr'' (JObj [])) (\<lambda>play_addr.
     bind (video_url_v2 play_addr) (\<lambda>video_url.
     bind (py_get item ''music'' (JObj [])) (\<lambda>music.
     bind (music_url_of music) (\<lambda>music_url.
     bind (py_get item ''statistics'' (JObj [])) (\<lambda>st.
     bind (stats_of st) (\<lambda>stats.
     bind (py_get video ''duration'' (JNum 0)) (\<lambda>dur.
     bind (py_get item ''create_time'' (JNum 0)) (\<lambda>ctime.
       Inr \<lparr>video_id = vid, title = desc, author = nickname, author_id = uid,
            cover_url = cover_url, video_url = video_url, music_url = music_url,
            duration = dur, create_time = ctime, statistics = stats\<rparr>))))))))))))))))"

subsection \<open>\<open>_parse_from_mobile_api\<close>, on the decoded response\<close>

text \<open>
  The request itself belongs to the environment; \<open>data\<close> is \<open>response.json()\<close>.
  The function returns \<open>None\<close> on a status other than 0 and on an empty item list, and
  the video information of the first item otherwise, whatever its \<open>video_url\<close> is.
\<close>

definition parse_from_mobile_api :: "json \<Rightarrow> error + video_info option" where
  "parse_from_mobile_api data =
     bind (py_get data ''status_code'' JNull) (\<lambda>status.
       if \<not> eq_zero status then Inr None
       else
         bind (py_get data ''item_list'' (JArr [])) (\<lambda>item_list.
           if \<not> truthy item_list then Inr None
           else
             bind (py_first item_list) (\<lambda>aweme_detail.
             bind (extract_video_info_v2 aweme_detail) (\<lambda>info. Inr (Some info)))))"

subsection \<open>\<open>_get_no_watermark_url\<close>\<close>

text \<open>
  The loop over \<open>play_addr['url_list']\<close>: the result is the URL the loop returns, or
  \<open>None\<close> when the loop ends without a \<open>return\<close>.
\<close>

fun play_addr_loop :: "json list \<Rightarrow> error + json option" where
  "play_addr_loop [] = Inr None"
| "play_addr_loop (url # urls) =
     bind (py_contains ''watermark'' url) (\<lambda>has_wm.
     bind (if has_wm then py_replace url ''watermark=1'' ''watermark=0'' else Inr url) (\<lambda>url1.
     bind (py_contains ''aweme.snssdk.com'' url1) (\<lambda>direct.
       if direct then Inr (Some url1)
       else
         bind (py_contains ''v.douyin.com'' url1) (\<lambda>short.
           if \<not> short then Inr (Some url1) else play_addr_loop urls))))"

text \<open>
  \<open>a == b\<close> on decoded values: \<open>True\<close> and \<open>False\<close> are the numbers 1 and 0, lists are
  equal element by element, and dicts when they have the same keys with equal values.
\<close>

fun num_of :: "json \<Rightarrow> int option" where
  "num_of (JNum n) = Some n"
| "num_of (JBool b) = Some (if b then 1 else 0)"
| "num_of _ = None"

fun py_eq :: "json \<Rightarrow> json \<Rightarrow> bool"
  and py_eq_list :: "json list \<Rightarrow> json list \<Rightarrow> bool"
  and py_eq_items :: "(string \<times> json) list \<Rightarrow> (string \<times> json) list \<Rightarrow> bool"
  and py_eq_item :: "string \<Rightarrow> json \<Rightarrow> (string \<times> json) list \<Rightarrow> bool" where
  "py_eq JNull b = (b = JNull)"
| "py_eq (JBool x) b = (num_of b = Some (if x then 1 else 0))"
| "py_eq (JNum n) b = (num_of b = Some n)"
| "py_eq (JStr s) b = (b = JStr s)"
| "py_eq (JArr xs) b = (case b of JArr ys \<Rightarrow> py_eq_list xs ys | _ \<Rightarrow> False)"
| "py_eq (JObj d) b =
     (case b of JObj d' \<Rightarrow> length d = length d' \<and> py_eq_items d d' | _ \<Rightarrow> False)"
| "py_eq_list [] ys = (ys = [])"
| "py_eq_list (x # xs) ys =
     (case ys of [] \<Rightarrow> False | y # ys' \<Rightarrow> py_eq x y \<and> py_eq_list xs ys')"
| "py_eq_items [] d' = True"
| "py_eq_items ((k, v) # d) d' = (py_eq_item k v d' \<and> py_eq_items d d')"
| "py_eq_item k v [] = False"
| "py_eq_item k v ((k', v') # d') = (if k = k' then py_eq v v' else py_eq_item k v d')"

text \<open>
  \<open>a < b\<close>: numbers by value, strings by code points, lists by the first pair of
  elements that are not equal (a proper prefix is smaller). Nothing else is ordered:
  \<open>None\<close>, dicts and values of two kinds raise \<open>TypeError\<close>.
\<close>

fun py_lt :: "json \<Rightarrow> json \<Rightarrow> error + bool"
  and py_lt_list :: "json list \<Rightarrow> json list \<Rightarrow> error + bool" where
  "py_lt (JArr xs) b = (case b of JArr ys \<Rightarrow> py_lt_list xs ys | _ \<Rightarrow> Inl TypeError)"
| "py_lt (JStr s) b = (case b of JStr t \<Rightarrow> Inr (s < t) | _ \<Rightarrow> Inl TypeError)"
| "py_lt (JNum n) b = (case num_of b of Some m \<Rightarrow> Inr (n < m) | None \<Rightarrow> Inl TypeError)"
| "py_lt (JBool x) b =
     (case num_of b of Some m \<Rightarrow> Inr ((if x then 1 else 0) < m) | None \<Rightarrow> Inl TypeError)"
| "py_lt JNull b = Inl TypeError"
| "py_lt (JObj d) b = Inl TypeError"
| "py_lt_list [] ys = Inr (ys \<noteq> [])"
| "py_lt_list (x # xs) ys =
     (case ys of
        [] \<Rightarrow> Inr False
      | y # ys' \<Rightarrow> if py_eq x y then py_lt_list xs ys' else py_lt x y)"

text \<open>
  \<open>sorted(bit_rate, key=lambda x: x.get('bit_rate', 0), reverse=True)\<close> on the list of
  keys and entries. No comparison is made on fewer than two entries. Two keys that
  cannot be compared can be ordered through no third key, so the sort compares them
  and raises \<open>TypeError\<close>. Otherwise the entries come out largest key first, entries
  with equal keys in their original order: the list is reversed, sorted by stable
  insertion, and reversed again.
\<close>

fun comparable_with :: "json \<Rightarrow> (json \<times> 'a) list \<Rightarrow> bool" where
  "comparable_with k [] = True"
| "comparable_with k (kx # kxs) =
     (case py_lt k (fst kx) of Inl e \<Rightarrow> False | Inr b \<Rightarrow> comparable_with k kxs)"

fun comparable :: "(json \<times> 'a) list \<Rightarrow> bool" where
  "comparable [] = True"
| "comparable (kx # kxs) = (comparable_with (fst kx) kxs \<and> comparable kxs)"

fun insert_by_key :: "json \<times> 'a \<Rightarrow> (json \<times> 'a) list \<Rightarrow> (json \<times> 'a) list" where
  "insert_by_key kx [] = [kx]"
| "insert_by_key kx (ky # kys) =
     (if py_lt (fst ky) (fst kx) = Inr True then ky # insert_by_key kx kys
      else kx # ky # kys)"

definition sorted_rates :: "(json \<times> json) list \<Rightarrow> error + json list" where
  "sorted_rates kxs =
     (if length kxs \<le> 1 then Inr (map snd kxs)
      else if comparable kxs
        then Inr (map snd (rev (foldr insert_by_key (rev kxs) [])))
      else Inl TypeError)"

fun rate_keys :: "json list \<Rightarrow> error + (json \<times> json) list" where
  "rate_keys [] = Inr []"
| "rate_keys (x # xs) =
     bind (py_get x ''bit_rate'' (JNum 0)) (\<lambda>k.
     bind (rate_keys xs) (\<lambda>kxs. Inr ((k, x) # kxs)))"

text \<open>The loop over the sorted rates.\<close>

fun bit_rate_loop :: "json list \<Rightarrow> error + json option" where
  "bit_rate_loop [] = Inr None"
| "bit_rate_loop (rate # rates) =
     bind (py_get rate ''play_addr'' (JObj [])) (\<lambda>play_addr.
     bind (py_get play_addr ''url_list'' (JArr [])) (\<lambda>url_list.
       if truthy url_list then
         bind (py_first url_list) (\<lambda>u.
         bind (py_replace u ''watermark=1'' ''watermark=0'') (\<lambda>u1. Inr (Some u1)))
       else bit_rate_loop rates))"

definition from_play_addr :: "json \<Rightarrow> error + json option" where
  "from_play_addr video_info =
     bind (py_get video_info ''play_addr'' (JObj [])) (\<lambda>play_addr.
       if truthy play_addr then
         bind (py_get play_addr ''url_list'' (JArr [])) (\<lambda>url_list.
         bind (py_iter url_list) (\<lambda>urls.
         bind (play_addr_loop urls) (\<lambda>found.
           case found of
             Some u \<Rightarrow> Inr (Some u)
           | None \<Rightarrow>
               if truthy url_list then
                 bind (py_first url_list) (\<lambda>u.
                 bind (py_replace u ''watermark=1'' ''watermark=0'') (\<lambda>u1. Inr (Some u1)))
               else Inr None)))
       else Inr None)"

definition from_bit_rate :: "json \<Rightarrow> error + json option" where
  "from_bit_rate video_info =
     bind (py_get video_info ''bit_rate'' (JArr [])) (\<lambda>bit_rate.
       if truthy bit_rate then
         bind (py_iter bit_rate) (\<lambda>rates.
         bind (rate_keys rates) (\<lambda>kxs.
         bind (sorted_rates kxs) bit_rate_loop))
       else Inr None)"

definition from_download_addr :: "json \<Rightarrow> error + json option" where
  "from_download_addr video_info =
     bind (py_get video_info ''download_addr'' (JObj [])) (\<lambda>download_addr.
       if truthy download_addr then
         bind (py_get download_addr ''url_list'' (JArr [])) (\<lambda>url_list.
           if truthy url_list then bind (py_first url_list) (\<lambda>u. Inr (Some u))
           else Inr None)
       else Inr None)"

definition get_no_watermark_url :: "json \<Rightarrow> error + json" where
  "get_no_watermark_url aweme_detail =
     bind (py_get aweme_detail ''video'' (JObj [])) (\<lambda>video_info.
     bind (from_play_addr video_info) (\<lambda>r1.
       case r1 of
         Some u \<Rightarrow> Inr u
       | None \<Rightarrow>
           bind (from_bit_rate video_info) (\<lambda>r2.
             case r2 of
               Some u \<Rightarrow> Inr u
             | None \<Rightarrow>
                 bind (from_download_addr video_info) (\<lambda>r3.
                   case r3 of
                     Some u \<Rightarrow> Inr u
                   | None \<Rightarrow> Inl (Exception ''Cannot find video URL'')))))"

subsection \<open>\<open>_extract_video_info\<close>\<close>

definition extract_video_info :: "json \<Rightarrow> error + video_info" where
  "extract_video_info aweme_detail =
     bind (py_get aweme_detail ''aweme_id'' (JStr [])) (\<lambda>vid.
     bind (py_get aweme_detail ''desc'' (JStr [])) (\<lambda>desc.
     bind (py_get aweme_detail ''title'' (JStr [])) (\<lambda>title_field.
     bind (py_get aweme_detail ''author'' (JObj [])) (\<lambda>author_info.
     bind (py_get author_info ''nickname'' (JStr [])) (\<lambda>nickname.
     bind (py_get author_info ''uid'' (JStr [])) (\<lambda>uid.
     bind (py_get author_info ''sec_uid'' (JStr [])) (\<lambda>sec_uid.
     bind (py_get aweme_detail ''video'' (JObj [])) (\<lambda>video.
     bind (py_get video ''cover'' (JObj [])) (\<lambda>cover.
     bind (first_url cover) (\<lambda>cover_url.
     bind (get_no_watermark_url aweme_detail) (\<lambda>video_url.
     bind (py_get aweme_detail ''music'' (JObj [])) (\<lambda>music_info.
     bind (music_url_of music_info) (\<lambda>music_url.
     bind (py_get video ''duration'' (JNum 0)) (\<lambda>dur.
     bind (py_get aweme_detail ''create_time'' (JNum 0)) (\<lambda>ctime.
     bind (py_get aweme_detail ''statistics'' (JObj [])) (\<lambda>st.
     bind (stats_of st) (\<lambda>stats.
       Inr \<lparr>video_id = vid, title = py_or desc title_field, author = nickname,
            author_id = py_or uid sec_uid,
            cover_url = cover_url, video_url = video_url, music_url = music_url,
            duration = dur, create_time = ctime, statistics = stats\<rparr>)))))))))))))))))"

subsection \<open>The URL rewriting of \<open>_parse_from_share_page\<close>\<close>

text \<open>
  What the loop over \<open>video_patterns\<close> does to the text \<open>match.group(1)\<close> of the first
  pattern that matches: the escaped slashes are decoded and \<open>playwm\<close> becomes \<open>play\<close>.
\<close>

definition share_page_video_url :: "string \<Rightarrow> string" where
  "share_page_video_url group1 =
     replace ''playwm'' ''play'' (replace (char_of (92 :: nat) # ''u002F'') ''/'' group1)"

subsection \<open>Identifier extraction\<close>

definition is_digit :: "char \<Rightarrow> bool" where
  "is_digit c = (48 \<le> (of_char c :: nat) \<and> (of_char c :: nat) \<le> 57)"

text \<open>
  \<open>re.search(lit + r'(\d+)', s)\<close> and its group 1, for a literal \<open>lit\<close>: the leftmost
  place where \<open>lit\<close> is followed by a digit, and all the digits that follow.
\<close>

fun search_digits :: "string \<Rightarrow> string \<Rightarrow> string option" where
  "search_digits lit [] = None"
| "search_digits lit (c # cs) =
     (if prefix lit (c # cs) \<and> takeWhile is_digit (drop (length lit) (c # cs)) \<noteq> []
      then Some (takeWhile is_digit (drop (length lit) (c # cs)))
      else search_digits lit cs)"

definition extract_video_id :: "string \<Rightarrow> string option" where
  "extract_video_id url =
     (case search_digits ''/video/'' url of
        Some i \<Rightarrow> Some i
      | None \<Rightarrow>
          (case search_digits ''modal_id='' url of
             Some i \<Rightarrow> Some i
           | None \<Rightarrow> search_digits ''/note/'' url))"

subsection \<open>\<open>DouyinVideoParser.parse\<close>\<close>

text \<open>
  What the network answers is the environment of a call: the URL a short link
  resolves to, the outcome of the two page-scraping strategies
  (\<open>_parse_from_share_page\<close>, \<open>_parse_from_webpage\<close>), and the decoded responses of
  the mobile API and of the web API for a video id. Each may raise.
\<close>

record env =
  get_real_url :: "string \<Rightarrow> error + string"
  parse_from_share_page :: "string \<Rightarrow> error + video_info option"
  mobile_api_response :: "string \<Rightarrow> error + json"
  web_api_response :: "string \<Rightarrow> error + json"
  parse_from_webpage :: "string \<Rightarrow> error + video_info"

text \<open>The body of the \<open>try\<close> around the web API, on the decoded response.\<close>

definition web_api_step :: "json \<Rightarrow> error + video_info option" where
  "web_api_step data =
     bind (py_get data ''status_code'' JNull) (\<lambda>status.
       if eq_zero status then
         bind (py_get data ''aweme_detail'' (JObj [])) (\<lambda>aweme_detail.
           if truthy aweme_detail
           then bind (extract_video_info aweme_detail) (\<lambda>info. Inr (Some info))
           else Inr None)
       else Inr None)"

text \<open>
  A \<open>try\<close> whose \<open>except Exception: pass\<close> turns every exception into "no result".
  A \<open>VideoInfo\<close> object is always truthy, so \<open>if result:\<close> tests for \<open>None\<close> only.
\<close>

definition attempt :: "error + 'a option \<Rightarrow> 'a option" where
  "attempt r = (case r of Inl e \<Rightarrow> None | Inr x \<Rightarrow> x)"

definition parse :: "env \<Rightarrow> string \<Rightarrow> error + video_info" where
  "parse ev url =
     bind (if str_in ''v.douyin.com'' url \<or> str_in ''vm.tiktok.com'' url
           then get_real_url ev url else Inr url) (\<lambda>real_url.
       case (if str_in ''iesdouyin.com/share/video/'' real_url
             then attempt (parse_from_share_page ev real_url) else None) of
         Some result \<Rightarrow> Inr result
       | None \<Rightarrow>
           (case extract_video_id real_url of
              None \<Rightarrow> Inl (ValueError (''Cannot extract video ID from URL: '' @ real_url))
            | Some vid \<Rightarrow>
                (case attempt (bind (mobile_api_response ev vid) parse_from_mobile_api) of
                   Some result \<Rightarrow> Inr result
                 | None \<Rightarrow>
                     (case attempt (bind (web_api_response ev vid) web_api_step) of
                        Some result \<Rightarrow> Inr result
                      | None \<Rightarrow> parse_from_webpage ev vid))))"

section \<open>The product parser\<close>

text \<open>
  \<open>re.search(r'/(\d{15,})(?:\?|$|&)', s)\<close> and its group 1: a slash, all the digits
  that follow it, at least 15 of them, and then a question mark, an ampersand or the
  end of the string (\<open>$\<close> also matches before a final newline).
\<close>

fun search_long_id :: "string \<Rightarrow> string option" where
  "search_long_id [] = None"
| "search_long_id (c # cs) =
     (let ds = takeWhile is_digit cs; rest = dropWhile is_digit cs in
      if c = CHR ''/'' \<and> 15 \<le> length ds \<and>
         (rest = [] \<or> rest = [char_of (10 :: nat)] \<or>
          take 1 rest = ''?'' \<or> take 1 rest = ''&'')
      then Some ds
      else search_long_id cs)"

text \<open>The four patterns of \<open>extract_product_id\<close>, in order; the first match wins.\<close>

definition match_product_id :: "string \<Rightarrow> string option" where
  "match_product_id url =
     (case search_digits ''commodity_id='' url of
        Some i \<Rightarrow> Some i
      | None \<Rightarrow>
          (case search_digits ''id='' url of
             Some i \<Rightarrow> Some i
           | None \<Rightarrow>
               (case search_digits ''product_id='' url of
                  Some i \<Rightarrow> Some i
                | None \<Rightarrow> search_long_id url)))"

definition extract_product_id :: "string \<Rightarrow> error + string" where
  "extract_product_id url =
     (case match_product_id url of
        Some i \<Rightarrow> Inr i
      | None \<Rightarrow>
          if str_in ''v.douyin.com'' url \<or> str_in ''douyin.com'' url
          then Inr ''SHORT_LINK''
          else Inl CannotExtractProductId)"

text \<open>
  \<open>DouyinProductParser.parse\<close>. The two strategies catch every exception of their own
  and return a \<open>ProductInfo\<close> (always truthy) or \<open>None\<close>; what they return for a URL
  and a product id depends on the browser and the network, so they are parameters.
\<close>

definition parse_product ::
  "(string \<Rightarrow> string \<Rightarrow> 'p option) \<Rightarrow> (string \<Rightarrow> string \<Rightarrow> 'p option) \<Rightarrow> string \<Rightarrow> error + 'p" where
  "parse_product parse_with_playwright parse_html url =
     bind (extract_product_id url) (\<lambda>product_id.
       let is_short_link = (product_id = ''SHORT_LINK'') in
       case parse_with_playwright url (if \<not> is_short_link then product_id else ''unknown'') of
         Some result \<Rightarrow> Inr result
       | None \<Rightarrow>
           (case parse_html url product_id of
              Some result \<Rightarrow> Inr result
            | None \<Rightarrow> Inl CannotGetProductInfo))"

subsection \<open>Classification of the harvested image URLs\<close>

text \<open>
  \<open>all_images\<close> is a Python set; the argument of the two functions is the list of its
  elements in the order the \<open>for\<close> loop meets them.
\<close>

definition playwright_keywords :: "string list" where
  "playwright_keywords = [''main'', ''primary'', ''cover'', ''thumb'', ''origin'']"

definition html_keywords :: "string list" where
  "html_keywords = [''main'', ''primary'', ''cover'', ''thumb'']"

text \<open>The loop of \<open>_parse_with_playwright\<close>: the keywords are looked up in the lowered URL.\<close>

fun classify_loop_playwright ::
  "string list \<Rightarrow> string list \<times> string list \<Rightarrow> string list \<times> string list" where
  "classify_loop_playwright [] (main_images, detail_images) = (main_images, detail_images)"
| "classify_loop_playwright (img_url # rest) (main_images, detail_images) =
     (if list_ex (\<lambda>kw. str_in kw (lower img_url)) playwright_keywords
      then classify_loop_playwright rest (main_images @ [img_url], detail_images)
      else classify_loop_playwright rest (main_images, detail_images @ [img_url]))"

text \<open>The loop of \<open>_parse_html\<close>: four keywords, looked up in the URL as it is.\<close>

fun classify_loop_html ::
  "string list \<Rightarrow> string list \<times> string list \<Rightarrow> string list \<times> string list" where
  "classify_loop_html [] (main_images, detail_images) = (main_images, detail_images)"
| "classify_loop_html (img_url # rest) (main_images, detail_images) =
     (if list_ex (\<lambda>kw. str_in kw img_url) html_keywords
      then classify_loop_html rest (main_images @ [img_url], detail_images)
      else classify_loop_html rest (main_images, detail_images @ [img_url]))"

text \<open>\<open>if not main_images and detail_images:\<close> the first five detail images become main.\<close>

definition promote :: "string list \<times> string list \<Rightarrow> string list \<times> string list" where
  "promote md =
     (case md of (main_images, detail_images) \<Rightarrow>
        if main_images = [] \<and> detail_images \<noteq> []
        then (take 5 detail_images, drop 5 detail_images)
        else (main_images, detail_images))"

definition classify_playwright :: "string list \<Rightarrow> string list \<times> string list" where
  "classify_playwright all_images = promote (classify_loop_playwright all_images ([], []))"

definition classify_html :: "string list \<Rightarrow> string list \<times> string list" where
  "classify_html all_images = promote (classify_loop_html all_images ([], []))"

text \<open>\<open>ProductInfo\<close>, the result of the two strategies.\<close>

record product_info =
  product_id :: string
  product_title :: string
  main_images :: "string list"
  detail_images :: "string list"
  product_video_url :: "string option"

section \<open>An environment without network\<close>

text \<open>
  Every request fails: the short link is not resolved, the share page and the two APIs
  raise, and \<open>_parse_from_webpage\<close> raises its wrapped exception.
\<close>

definition offline :: env where
  "offline =
     \<lparr>get_real_url = (\<lambda>u. Inl (Exception ''Failed to resolve short URL: connection failed'')),
      parse_from_share_page = (\<lambda>u. Inl (Exception ''connection failed'')),
      mobile_api_response = (\<lambda>i. Inl (Exception ''connection failed'')),
      web_api_response = (\<lambda>i. Inl (Exception ''connection failed'')),
      parse_from_webpage = (\<lambda>i. Inl (Exception ''Failed to parse from webpage: connection failed''))\<rparr>"

section \<open>Deeply nested trees\<close>

text \<open>A tree of \<open>n\<close> nested dicts \<open>{"a": ...}\<close> around a value.\<close>

fun nest :: "nat \<Rightarrow> json \<Rightarrow> json" where
  "nest 0 x = x"
| "nest (Suc n) x = JObj [(''a'', nest n x)]"

section \<open>Substrings\<close>

lemma str_in_iff: "str_in p s \<longleftrightarrow> (\<exists>a b. s = a @ p @ b)"
proof (induction s)
  case Nil
  then show ?case by auto
next
  case (Cons c cs)
  show ?case
  proof
    assume "str_in p (c # cs)"
    then consider "prefix p (c # cs)" | "str_in p cs" by auto
    then show "\<exists>a b. c # cs = a @ p @ b"
    proof cases
      case 1
      then obtain b where "c # cs = p @ b" by (auto simp: prefix_def)
      then have "c # cs = [] @ p @ b" by simp
      then show ?thesis by blast
    next
      case 2
      then obtain a b where "cs = a @ p @ b" using Cons.IH by blast
      then have "c # cs = (c # a) @ p @ b" by simp
      then show ?thesis by blast
    qed
  next
    assume "\<exists>a b. c # cs = a @ p @ b"
    then obtain a b where ab: "c # cs = a @ p @ b" by blast
    show "str_in p (c # cs)"
    proof (cases a)
      case Nil
      then have "prefix p (c # cs)" using ab by (simp add: prefix_def)
      then show ?thesis by simp
    next
      case (Cons x a')
      then have "cs = a' @ p @ b" using ab by simp
      then have "str_in p cs" using Cons.IH by blast
      then show ?thesis by simp
    qed
  qed
qed

lemma str_in_map:
  assumes "str_in p s"
  shows "str_in (map f p) (map f s)"
proof -
  from assms obtain a b where "s = a @ p @ b" by (auto simp: str_in_iff)
  then have "map f s = map f a @ map f p @ map f b" by simp
  then show ?thesis unfolding str_in_iff by blast
qed

lemma lower_exclude_patterns: "p \<in> set exclude_patterns \<Longrightarrow> lower p = p"
  by (auto simp: exclude_patterns_def lower_def lower_char_def)

lemma str_in_lower:
  assumes "p \<in> set exclude_patterns" and "str_in p url"
  shows "str_in p (lower url)"
proof -
  have "str_in (lower p) (lower url)"
    using assms(2) unfolding lower_def by (rule str_in_map)
  then show ?thesis using assms(1) by (simp add: lower_exclude_patterns)
qed

section \<open>Properties of the validity predicate\<close>

lemma short_url_rejected:
  assumes "length url < 20"
  shows "is_valid_product_image (JStr url) = Inr False"
  using assms by (simp add: is_valid_product_image_def)

lemma excluded_url_rejected:
  assumes "p \<in> set exclude_patterns" and "str_in p url"
  shows "is_valid_product_image (JStr url) = Inr False"
proof -
  have "str_in p (lower url)" using assms by (rule str_in_lower)
  then have "list_ex (\<lambda>pattern. str_in pattern (lower url)) exclude_patterns"
    using assms(1) unfolding list_ex_iff by blast
  then have "valid_lowered (lower url) = False"
    by (simp add: valid_lowered_def)
  then show ?thesis
    by (simp add: is_valid_product_image_def)
qed

text \<open>
  Claim C6. The validity predicate rejects every URL of fewer than 20 characters, and
  every URL that contains one of the substrings icon, logo, avatar, placeholder, sprite,
  button, blank, transparent, emoji, badge, default, 1x1, 2x2, whatever its extension
  (and its host) may be.
\<close>

theorem disallowed_or_short_rejected:
  assumes "length url < 20 \<or>
           (\<exists>p \<in> set [''icon'', ''logo'', ''avatar'', ''placeholder'', ''sprite'',
                        ''button'', ''blank'', ''transparent'', ''emoji'', ''badge'',
                        ''default'', ''1x1'', ''2x2'']. str_in p url)"
  shows "is_valid_product_image (JStr url) = Inr False"
  using assms
proof
  assume "length url < 20"
  then show ?thesis by (rule short_url_rejected)
next
  assume "\<exists>p \<in> set [''icon'', ''logo'', ''avatar'', ''placeholder'', ''sprite'',
                      ''button'', ''blank'', ''transparent'', ''emoji'', ''badge'',
                      ''default'', ''1x1'', ''2x2'']. str_in p url"
  then obtain p where p: "p \<in> set [''icon'', ''logo'', ''avatar'', ''placeholder'', ''sprite'',
                      ''button'', ''blank'', ''transparent'', ''emoji'', ''badge'',
                      ''default'', ''1x1'', ''2x2'']" and u: "str_in p url"
    by blast
  from p have "p \<in> set exclude_patterns"
    unfolding exclude_patterns_def by auto
  then show ?thesis using u by (rule excluded_url_rejected)
qed

theorem disallowed_or_short_rejected_witness:
  "str_in ''icon'' ''https://p1-aio.ecombdimg.com/icon.jpg'' \<and>
   is_valid_product_image (JStr ''https://p1-aio.ecombdimg.com/icon.jpg'') = Inr False"
proof -
  have h: "str_in ''icon'' ''https://p1-aio.ecombdimg.com/icon.jpg''" by simp
  then have "length ''https://p1-aio.ecombdimg.com/icon.jpg'' < 20 \<or>
           (\<exists>p \<in> set [''icon'', ''logo'', ''avatar'', ''placeholder'', ''sprite'',
                        ''button'', ''blank'', ''transparent'', ''emoji'', ''badge'',
                        ''default'', ''1x1'', ''2x2'']. str_in p ''https://p1-aio.ecombdimg.com/icon.jpg'')"
    by simp
  then have "is_valid_product_image (JStr ''https://p1-aio.ecombdimg.com/icon.jpg'') = Inr False"
    by (rule disallowed_or_short_rejected)
  with h show ?thesis by blast
qed

text \<open>
  Claim C10, as stated, fails, because the predicate looks its patterns and extensions
  up in the lowered URL and has the patterns \<open>loading\<close> and \<open>btn\<close> as well. A URL on
  a hosting domain with \<open>ICON\<close> in capitals contains none of the patterns and no
  extension, and is rejected. A URL ending in \<open>.JPG\<close> contains none of the four
  extensions and no hosting domain, and is accepted. A URL on a hosting domain with
  \<open>loading\<close> contains none of the thirteen listed substrings, and is rejected.
\<close>

theorem literal_conditions_counterexample:
  "20 \<le> length ''https://p3.byteimg.com/obj/ICON-abcdef'' \<and>
   \<not> list_ex (\<lambda>p. str_in p ''https://p3.byteimg.com/obj/ICON-abcdef'') exclude_patterns \<and>
   \<not> list_ex (\<lambda>ext. str_in ext ''https://p3.byteimg.com/obj/ICON-abcdef'') image_exts \<and>
   str_in ''byteimg.com'' (lower ''https://p3.byteimg.com/obj/ICON-abcdef'') \<and>
   is_valid_product_image (JStr ''https://p3.byteimg.com/obj/ICON-abcdef'') = Inr False \<and>
   20 \<le> length ''https://example.com/path/PICTURE.JPG'' \<and>
   \<not> list_ex (\<lambda>p. str_in p ''https://example.com/path/PICTURE.JPG'') exclude_patterns \<and>
   \<not> list_ex (\<lambda>ext. str_in ext ''https://example.com/path/PICTURE.JPG'') image_exts \<and>
   \<not> list_ex (\<lambda>cdn. str_in cdn (lower ''https://example.com/path/PICTURE.JPG'')) bytedance_cdns \<and>
   is_valid_product_image (JStr ''https://example.com/path/PICTURE.JPG'') = Inr True \<and>
   20 \<le> length ''https://p3.byteimg.com/obj/loading-abcdef'' \<and>
   \<not> list_ex (\<lambda>p. str_in p (lower ''https://p3.byteimg.com/obj/loading-abcdef''))
        [''icon'', ''logo'', ''avatar'', ''placeholder'', ''sprite'', ''button'', ''blank'',
         ''transparent'', ''emoji'', ''badge'', ''default'', ''1x1'', ''2x2''] \<and>
   \<not> list_ex (\<lambda>ext. str_in ext (lower ''https://p3.byteimg.com/obj/loading-abcdef'')) image_exts \<and>
   str_in ''byteimg.com'' (lower ''https://p3.byteimg.com/obj/loading-abcdef'') \<and>
   is_valid_product_image (JStr ''https://p3.byteimg.com/obj/loading-abcdef'') = Inr False"
  by code_simp

text \<open>
  Claim C10, amended. For a URL of at least 20 characters whose lowered text contains
  no entry of \<open>exclude_patterns\<close> (the thirteen listed substrings, \<open>loading\<close> and
  \<open>btn\<close>) and none of the extensions .jpg, .jpeg, .png, .webp, the predicate accepts
  exactly when the lowered URL contains one of the four host names ecombdimg.com,
  bytetos.com, douyinpic.com, byteimg.com.
\<close>

theorem no_extension_accepted_iff_cdn:
  assumes "20 \<le> length url"
    and "\<not> list_ex (\<lambda>p. str_in p (lower url)) exclude_patterns"
    and "\<not> list_ex (\<lambda>ext. str_in ext (lower url)) [''.jpg'', ''.jpeg'', ''.png'', ''.webp'']"
  shows "is_valid_product_image (JStr url) =
         Inr (str_in ''ecombdimg.com'' (lower url) \<or> str_in ''bytetos.com'' (lower url) \<or>
              str_in ''douyinpic.com'' (lower url) \<or> str_in ''byteimg.com'' (lower url))"
proof -
  from assms(1) have ne: "url \<noteq> []" by auto
  have "valid_lowered (lower url) =
        (str_in ''ecombdimg.com'' (lower url) \<or> str_in ''bytetos.com'' (lower url) \<or>
         str_in ''douyinpic.com'' (lower url) \<or> str_in ''byteimg.com'' (lower url))"
    using assms(2,3) by (simp add: valid_lowered_def image_exts_def bytedance_cdns_def)
  then show ?thesis
    using assms(1) ne by (simp add: is_valid_product_image_def)
qed

theorem no_extension_accepted_iff_cdn_witness:
  "20 \<le> length ''https://p3.BYTEIMG.com/obj/abcdef'' \<and>
   \<not> str_in ''byteimg.com'' ''https://p3.BYTEIMG.com/obj/abcdef'' \<and>
   is_valid_product_image (JStr ''https://p3.BYTEIMG.com/obj/abcdef'') = Inr True \<and>
   20 \<le> length ''https://example.com/path/Picture-1'' \<and>
   is_valid_product_image (JStr ''https://example.com/path/Picture-1'') = Inr False"
proof -
  have l1: "lower ''https://p3.BYTEIMG.com/obj/abcdef'' = ''https://p3.byteimg.com/obj/abcdef''"
    by code_simp
  have l2: "lower ''https://example.com/path/Picture-1'' = ''https://example.com/path/picture-1''"
    by code_simp
  have a: "is_valid_product_image (JStr ''https://p3.BYTEIMG.com/obj/abcdef'') = Inr True"
    using no_extension_accepted_iff_cdn [of "''https://p3.BYTEIMG.com/obj/abcdef''"]
    unfolding l1 by (simp add: exclude_patterns_def)
  have b: "is_valid_product_image (JStr ''https://example.com/path/Picture-1'') = Inr False"
    using no_extension_accepted_iff_cdn [of "''https://example.com/path/Picture-1''"]
    unfolding l2 by (simp add: exclude_patterns_def)
  from a b show ?thesis by simp
qed

section \<open>Properties of the deep structure miner\<close>

lemma depth_bound_generic: "10 < depth \<Longrightarrow> extract_images_from_json data depth = Inr None"
  by simp

lemma depth_bound_targeted: "15 < depth \<Longrightarrow> find_product_in_router data depth = None"
  by simp

lemma scan_generic_image_key:
  assumes "list_ex (\<lambda>k. str_in k (lower key)) image_keys"
  shows "scan_generic (lower key) (JArr imgs) r = generic_loop imgs r"
  using assms by (simp add: scan_generic_def)

subsection \<open>The depth bound on deeply nested trees\<close>

lemma lower_a: "lower ''a'' = ''a''"
  by (simp add: lower_def lower_char_def)

lemma scan_entry_a: "scan_entry ''a'' v r = Inr r"
proof -
  have t: "scan_title ''a'' v r = r"
    by (cases v) (simp_all add: scan_title_def title_keys_def)
  have w: "scan_video ''a'' v r = r"
    by (cases v) (simp_all add: scan_video_def video_keys_def)
  have m: "scan_main ''a'' v r = Inr r"
    by (simp add: scan_main_def main_keys_def)
  have d: "scan_detail ''a'' v r = Inr r"
    by (simp add: scan_detail_def detail_keys_def)
  have g: "scan_generic ''a'' v r = Inr r"
    by (simp add: scan_generic_def image_keys_def)
  show ?thesis
    by (simp add: scan_entry_def lower_a t w m d g)
qed

lemma finish_empty: "finish empty_result = None"
  by (simp add: finish_def empty_result_def)

text \<open>
  Generic mode on a value wrapped in \<open>n\<close> dicts, entered at \<open>depth\<close>: when the value lies
  beyond the bound of 10 the result is \<open>None\<close>, whatever the value is, for every \<open>n\<close>
  (50 as well).
\<close>

lemma generic_beyond_bound:
  "10 < depth + n \<Longrightarrow> extract_images_from_json (nest n x) depth = Inr None"
proof (induction n arbitrary: depth)
  case 0
  then show ?case by simp
next
  case (Suc n)
  show ?case
  proof (cases "10 < depth")
    case True
    then show ?thesis by simp
  next
    case False
    from Suc.prems have "10 < Suc depth + n" by simp
    then have ih: "extract_images_from_json (nest n x) (Suc depth) = Inr None"
      by (rule Suc.IH)
    have "extract_items [(''a'', nest n x)] depth empty_result = Inr empty_result"
      by (simp add: scan_entry_a ih merge_in_dict_def del: extract_images_from_json.simps(1))
    then show ?thesis using False by (simp add: finish_empty)
  qed
qed

lemma targeted_beyond_bound:
  "15 < depth + n \<Longrightarrow> find_product_in_router (nest n (JStr s)) depth = None"
proof (induction n arbitrary: depth)
  case 0
  then show ?case by simp
next
  case (Suc n)
  show ?case
  proof (cases "15 < depth")
    case True
    then show ?thesis by simp
  next
    case False
    from Suc.prems have "15 < Suc depth + n" by simp
    then have ih: "find_product_in_router (nest n (JStr s)) (Suc depth) = None"
      by (rule Suc.IH)
    have "lower ''a'' \<notin> set product_keys"
      by (simp add: lower_a product_keys_def)
    then have "find_in_items [(''a'', nest n (JStr s))] depth = None"
      by (simp add: ih del: find_product_in_router.simps(1))
    then show ?thesis using False by simp
  qed
qed

lemma fifty_levels:
  "extract_images_from_json
     (nest 50 (JObj [(''images'', JArr [JStr ''https://p1-aio.ecombdimg.com/x.jpg''])])) 0
   = Inr None"
  by (rule generic_beyond_bound) simp

text \<open>
  The loop under a generic image-list key, from any \<open>result\<close>: of the URLs the list
  contributes, the first \<open>5 - len(result['main'])\<close> go to main and the rest to detail.
\<close>

lemma generic_loop_candidates:
  "generic_loop imgs r =
     (case candidates imgs of
        Inl e \<Rightarrow> Inl e
      | Inr us \<Rightarrow>
          Inr (r\<lparr>result_main := result_main r @ take (5 - length (result_main r)) us,
                 result_detail := result_detail r @ drop (5 - length (result_main r)) us\<rparr>))"
proof (induction imgs arbitrary: r)
  case Nil
  then show ?case by simp
next
  case (Cons img imgs)
  show ?case
  proof (cases "candidate img")
    case (Inl e)
    then show ?thesis by simp
  next
    case (Inr c)
    show ?thesis
    proof (cases c)
      case None
      then show ?thesis using Inr Cons.IH [of r] by (simp split: sum.splits)
    next
      case (Some u)
      show ?thesis
      proof (cases "length (result_main r) < 5")
        case True
        then obtain k where k: "5 - length (result_main r) = Suc k"
          and k': "4 - length (result_main r) = k"
          by (cases "5 - length (result_main r)") auto
        show ?thesis
          using Inr Some True Cons.IH [of "r\<lparr>result_main := result_main r @ [u]\<rparr>"]
          by (simp add: k k' split: sum.splits)
      next
        case False
        then have z: "5 - length (result_main r) = 0" by simp
        show ?thesis
          using Inr Some False Cons.IH [of "r\<lparr>result_detail := result_detail r @ [u]\<rparr>"]
          by (simp add: z split: sum.splits)
      qed
    qed
  qed
qed

subsection \<open>Image lists under a generic image-list key\<close>

lemma candidate_offered:
  "candidate img =
     (case offered_url img of
        None \<Rightarrow> Inr None
      | Some u \<Rightarrow>
          (case is_valid_product_image u of
             Inl e \<Rightarrow> Inl e
           | Inr ok \<Rightarrow> Inr (if ok then Some u else None)))"
proof (cases img)
  case (JObj d)
  show ?thesis
  proof (cases "truthy (dict_get d ''url'' JNull)")
    case True
    then show ?thesis using JObj by (simp add: candidate_def dict_img_url_def Let_def)
  next
    case url: False
    show ?thesis
    proof (cases "truthy (dict_get d ''src'' JNull)")
      case True
      then show ?thesis using JObj url by (simp add: candidate_def dict_img_url_def Let_def)
    next
      case False
      then show ?thesis using JObj url by (simp add: candidate_def dict_img_url_def Let_def)
    qed
  qed
qed (simp_all add: candidate_def)

lemma candidates_valid_urls:
  assumes "\<not> list_ex test_raises (offered_urls imgs)"
  shows "candidates imgs = Inr (valid_urls imgs)"
  using assms
proof (induction imgs)
  case Nil
  then show ?case by (simp add: valid_urls_def offered_urls_def)
next
  case (Cons img imgs)
  show ?case
  proof (cases "offered_url img")
    case None
    then have "offered_urls (img # imgs) = offered_urls imgs"
      by (simp add: offered_urls_def)
    then show ?thesis
      using Cons None by (simp add: candidate_offered valid_urls_def)
  next
    case (Some u)
    then have o: "offered_urls (img # imgs) = u # offered_urls imgs"
      by (simp add: offered_urls_def)
    with Cons.prems have nr: "\<not> test_raises u" and rest: "\<not> list_ex test_raises (offered_urls imgs)"
      by simp_all
    from nr obtain ok where ok: "is_valid_product_image u = Inr ok"
      by (cases "is_valid_product_image u") (simp_all add: test_raises_def)
    from rest have ih: "candidates imgs = Inr (valid_urls imgs)" by (rule Cons.IH)
    show ?thesis
      using Some ok ih o by (simp add: candidate_offered valid_urls_def)
  qed
qed

lemma detail_loop_candidates:
  "detail_loop imgs r =
     (case candidates imgs of
        Inl e \<Rightarrow> Inl e
      | Inr us \<Rightarrow> Inr (r\<lparr>result_detail := result_detail r @ us\<rparr>))"
proof (induction imgs arbitrary: r)
  case Nil
  then show ?case by simp
next
  case (Cons img imgs)
  show ?case
  proof (cases "candidate img")
    case (Inl e)
    then show ?thesis by simp
  next
    case (Inr c)
    show ?thesis
    proof (cases c)
      case None
      then show ?thesis using Inr Cons.IH [of r] by (simp split: sum.splits)
    next
      case (Some u)
      then show ?thesis
        using Inr Cons.IH [of "r\<lparr>result_detail := result_detail r @ [u]\<rparr>"]
        by (simp split: sum.splits)
    qed
  qed
qed

lemma extract_items_append:
  "extract_items (pre @ kvs) depth r0 =
     (case extract_items pre depth r0 of
        Inl e \<Rightarrow> Inl e
      | Inr r \<Rightarrow> extract_items kvs depth r)"
proof (induction pre arbitrary: r0)
  case Nil
  then show ?case by simp
next
  case (Cons kv pre)
  obtain key v where kv: "kv = (key, v)" by (cases kv)
  show ?case
    unfolding kv
    by (simp add: Cons.IH del: extract_images_from_json.simps(1) split: sum.splits)
qed

text \<open>
  The body of the loop for an entry whose key has a generic image-list keyword and no
  main-image keyword, on a list in which no validity test raises.
\<close>

lemma scan_entry_generic_key:
  assumes "list_ex (\<lambda>k. str_in k (lower key)) image_keys"
    and "\<not> list_ex (\<lambda>k. str_in k (lower key)) main_keys"
    and "\<not> list_ex test_raises (offered_urls imgs)"
  shows "scan_entry key (JArr imgs) r =
     Inr (r\<lparr>result_main := result_main r @ take (5 - length (result_main r)) (valid_urls imgs),
            result_detail := result_detail r @
              (if list_ex (\<lambda>k. str_in k (lower key)) detail_keys then valid_urls imgs else []) @
              drop (5 - length (result_main r)) (valid_urls imgs)\<rparr>)"
proof -
  have c: "candidates imgs = Inr (valid_urls imgs)"
    using assms(3) by (rule candidates_valid_urls)
  show ?thesis
    using assms(1,2)
    by (simp add: scan_entry_def scan_title_def scan_video_def scan_main_def scan_detail_def
        scan_generic_def detail_loop_candidates generic_loop_candidates c)
qed

text \<open>The six generic image-list keys themselves contain no main-image keyword.\<close>

lemma listed_image_key:
  assumes "lower key \<in> set image_keys"
  shows "list_ex (\<lambda>k. str_in k (lower key)) image_keys \<and>
         \<not> list_ex (\<lambda>k. str_in k (lower key)) main_keys \<and>
         \<not> list_ex (\<lambda>k. str_in k (lower key)) detail_keys"
proof -
  from assms consider
      "lower key = ''images''" | "lower key = ''imgs''" | "lower key = ''image_list''"
    | "lower key = ''pic_list''" | "lower key = ''gallery''" | "lower key = ''photos''"
    by (auto simp: image_keys_def)
  then show ?thesis
    by cases (simp_all add: image_keys_def main_keys_def detail_keys_def)
qed

text \<open>
  Claim C9, as stated, fails for a key that has a generic image-list keyword and a
  main-image keyword as well: under \<open>cover_images\<close> the main-image branch appends all
  seven URLs to \<open>result['main']\<close>, the sixth and the seventh while it has five entries
  or more (and the generic branch then appends all seven to detail).
\<close>

theorem main_key_over_five_counterexample:
  "list_ex (\<lambda>k. str_in k (lower ''cover_images'')) image_keys \<and>
   extract_images_from_json
     (JObj [(''cover_images'', JArr [
        JStr ''https://p3-aio.ecombdimg.com/obj/img-1.jpg'',
        JStr ''https://p3-aio.ecombdimg.com/obj/img-2.jpg'',
        JStr ''https://p3-aio.ecombdimg.com/obj/img-3.jpg'',
        JStr ''https://p3-aio.ecombdimg.com/obj/img-4.jpg'',
        JStr ''https://p3-aio.ecombdimg.com/obj/img-5.jpg'',
        JStr ''https://p3-aio.ecombdimg.com/obj/img-6.jpg'',
        JStr ''https://p3-aio.ecombdimg.com/obj/img-7.jpg''])]) 0
   = Inr (Some \<lparr>result_main =
                  [JStr ''https://p3-aio.ecombdimg.com/obj/img-1.jpg'',
                   JStr ''https://p3-aio.ecombdimg.com/obj/img-2.jpg'',
                   JStr ''https://p3-aio.ecombdimg.com/obj/img-3.jpg'',
                   JStr ''https://p3-aio.ecombdimg.com/obj/img-4.jpg'',
                   JStr ''https://p3-aio.ecombdimg.com/obj/img-5.jpg'',
                   JStr ''https://p3-aio.ecombdimg.com/obj/img-6.jpg'',
                   JStr ''https://p3-aio.ecombdimg.com/obj/img-7.jpg''],
                result_detail =
                  [JStr ''https://p3-aio.ecombdimg.com/obj/img-1.jpg'',
                   JStr ''https://p3-aio.ecombdimg.com/obj/img-2.jpg'',
                   JStr ''https://p3-aio.ecombdimg.com/obj/img-3.jpg'',
                   JStr ''https://p3-aio.ecombdimg.com/obj/img-4.jpg'',
                   JStr ''https://p3-aio.ecombdimg.com/obj/img-5.jpg'',
                   JStr ''https://p3-aio.ecombdimg.com/obj/img-6.jpg'',
                   JStr ''https://p3-aio.ecombdimg.com/obj/img-7.jpg''],
                result_title = [], result_video = None\<rparr>)"
  by code_simp

text \<open>
  Claim C9, amended. In generic mode, at any dict of the tree within the depth bound
  and for any entry of it whose lowered key contains a generic image-list keyword and
  no main-image keyword, and whose value is a list in which no validity test raises:
  with \<open>r\<close> the result collected from the entries before it, the valid URLs of the
  list are appended to main while main has fewer than 5 entries, and every later one
  to detail (if the key also contains a detail-image keyword, the detail branch has
  appended all of them to detail before). The function then goes on with the nested
  search of the list and with the remaining entries.
\<close>

theorem generic_key_fills_main_to_five:
  assumes "depth \<le> 10"
    and "list_ex (\<lambda>k. str_in k (lower key)) image_keys"
    and "\<not> list_ex (\<lambda>k. str_in k (lower key)) main_keys"
    and "\<not> list_ex test_raises (offered_urls imgs)"
    and "extract_items pre depth empty_result = Inr r"
  shows "extract_images_from_json (JObj (pre @ (key, JArr imgs) # rest)) depth =
     (case extract_images_from_json (JArr imgs) (Suc depth) of
        Inl e \<Rightarrow> Inl e
      | Inr nested \<Rightarrow>
          (case extract_items rest depth
                  (merge_in_dict
                     (r\<lparr>result_main :=
                          result_main r @ take (5 - length (result_main r)) (valid_urls imgs),
                        result_detail :=
                          result_detail r @
                          (if list_ex (\<lambda>k. str_in k (lower key)) detail_keys
                           then valid_urls imgs else []) @
                          drop (5 - length (result_main r)) (valid_urls imgs)\<rparr>)
                     nested) of
             Inl e \<Rightarrow> Inl e
           | Inr r2 \<Rightarrow> Inr (finish r2)))"
proof -
  have s: "scan_entry key (JArr imgs) r =
     Inr (r\<lparr>result_main := result_main r @ take (5 - length (result_main r)) (valid_urls imgs),
            result_detail := result_detail r @
              (if list_ex (\<lambda>k. str_in k (lower key)) detail_keys then valid_urls imgs else []) @
              drop (5 - length (result_main r)) (valid_urls imgs)\<rparr>)"
    using assms(2-4) by (rule scan_entry_generic_key)
  have "extract_items (pre @ (key, JArr imgs) # rest) depth empty_result =
        extract_items ((key, JArr imgs) # rest) depth r"
    by (simp add: extract_items_append assms(5))
  also have "\<dots> =
     (case extract_images_from_json (JArr imgs) (Suc depth) of
        Inl e \<Rightarrow> Inl e
      | Inr nested \<Rightarrow>
          extract_items rest depth
            (merge_in_dict
               (r\<lparr>result_main :=
                    result_main r @ take (5 - length (result_main r)) (valid_urls imgs),
                  result_detail :=
                    result_detail r @
                    (if list_ex (\<lambda>k. str_in k (lower key)) detail_keys
                     then valid_urls imgs else []) @
                    drop (5 - length (result_main r)) (valid_urls imgs)\<rparr>)
               nested))"
    by (simp add: s del: extract_images_from_json.simps(1))
  finally have e: "extract_items (pre @ (key, JArr imgs) # rest) depth empty_result =
     (case extract_images_from_json (JArr imgs) (Suc depth) of
        Inl e \<Rightarrow> Inl e
      | Inr nested \<Rightarrow>
          extract_items rest depth
            (merge_in_dict
               (r\<lparr>result_main :=
                    result_main r @ take (5 - length (result_main r)) (valid_urls imgs),
                  result_detail :=
                    result_detail r @
                    (if list_ex (\<lambda>k. str_in k (lower key)) detail_keys
                     then valid_urls imgs else []) @
                    drop (5 - length (result_main r)) (valid_urls imgs)\<rparr>)
               nested))" .
  have "extract_images_from_json (JObj (pre @ (key, JArr imgs) # rest)) depth =
        (case extract_items (pre @ (key, JArr imgs) # rest) depth empty_result of
           Inl e \<Rightarrow> Inl e | Inr r2 \<Rightarrow> Inr (finish r2))"
    using assms(1) by simp
  then show ?thesis
    unfolding e by (simp split: sum.splits)
qed

theorem generic_key_fills_main_to_five_witness:
  "extract_images_from_json
     (JObj [(''title'', JStr ''Shoes''),
            (''Images'', JArr [
               JStr ''https://p3-aio.ecombdimg.com/obj/img-1.jpg'',
               JObj [(''url'', JStr ''https://p3-aio.ecombdimg.com/obj/img-2.jpg'')],
               JStr ''short'',
               JStr ''https://p3-aio.ecombdimg.com/obj/img-3.jpg'',
               JStr ''https://p3-aio.ecombdimg.com/obj/img-4.jpg'',
               JStr ''https://p3-aio.ecombdimg.com/obj/img-5.jpg'',
               JStr ''https://p3-aio.ecombdimg.com/obj/img-6.jpg'',
               JStr ''https://p3-aio.ecombdimg.com/obj/img-7.jpg''])]) 0
   = Inr (Some \<lparr>result_main =
                  [JStr ''https://p3-aio.ecombdimg.com/obj/img-1.jpg'',
                   JStr ''https://p3-aio.ecombdimg.com/obj/img-2.jpg'',
                   JStr ''https://p3-aio.ecombdimg.com/obj/img-3.jpg'',
                   JStr ''https://p3-aio.ecombdimg.com/obj/img-4.jpg'',
                   JStr ''https://p3-aio.ecombdimg.com/obj/img-5.jpg''],
                result_detail =
                  [JStr ''https://p3-aio.ecombdimg.com/obj/img-6.jpg'',
                   JStr ''https://p3-aio.ecombdimg.com/obj/img-7.jpg''],
                result_title = ''Shoes'', result_video = None\<rparr>)"
proof -
  let ?imgs = "[JStr ''https://p3-aio.ecombdimg.com/obj/img-1.jpg'',
               JObj [(''url'', JStr ''https://p3-aio.ecombdimg.com/obj/img-2.jpg'')],
               JStr ''short'',
               JStr ''https://p3-aio.ecombdimg.com/obj/img-3.jpg'',
               JStr ''https://p3-aio.ecombdimg.com/obj/img-4.jpg'',
               JStr ''https://p3-aio.ecombdimg.com/obj/img-5.jpg'',
               JStr ''https://p3-aio.ecombdimg.com/obj/img-6.jpg'',
               JStr ''https://p3-aio.ecombdimg.com/obj/img-7.jpg'']"
  let ?r = "\<lparr>result_main = [], result_detail = [], result_title = ''Shoes'',
             result_video = None\<rparr>"
  have h1: "(0::nat) \<le> 10" by simp
  have h2: "list_ex (\<lambda>k. str_in k (lower ''Images'')) image_keys" by code_simp
  have h3: "\<not> list_ex (\<lambda>k. str_in k (lower ''Images'')) main_keys" by code_simp
  have h4: "\<not> list_ex test_raises (offered_urls ?imgs)" by code_simp
  have h5: "extract_items [(''title'', JStr ''Shoes'')] 0 empty_result = Inr ?r" by code_simp
  have d: "\<not> list_ex (\<lambda>k. str_in k (lower ''Images'')) detail_keys" by code_simp
  have v: "valid_urls ?imgs =
             [JStr ''https://p3-aio.ecombdimg.com/obj/img-1.jpg'',
              JStr ''https://p3-aio.ecombdimg.com/obj/img-2.jpg'',
              JStr ''https://p3-aio.ecombdimg.com/obj/img-3.jpg'',
              JStr ''https://p3-aio.ecombdimg.com/obj/img-4.jpg'',
              JStr ''https://p3-aio.ecombdimg.com/obj/img-5.jpg'',
              JStr ''https://p3-aio.ecombdimg.com/obj/img-6.jpg'',
              JStr ''https://p3-aio.ecombdimg.com/obj/img-7.jpg'']"
    by code_simp
  have n: "extract_images_from_json (JArr ?imgs) (Suc 0) = Inr None" by code_simp
  have f: "finish
             \<lparr>result_main =
                [JStr ''https://p3-aio.ecombdimg.com/obj/img-1.jpg'',
                 JStr ''https://p3-aio.ecombdimg.com/obj/img-2.jpg'',
                 JStr ''https://p3-aio.ecombdimg.com/obj/img-3.jpg'',
                 JStr ''https://p3-aio.ecombdimg.com/obj/img-4.jpg'',
                 JStr ''https://p3-aio.ecombdimg.com/obj/img-5.jpg''],
              result_detail =
                [JStr ''https://p3-aio.ecombdimg.com/obj/img-6.jpg'',
                 JStr ''https://p3-aio.ecombdimg.com/obj/img-7.jpg''],
              result_title = ''Shoes'', result_video = None\<rparr>
           = Some \<lparr>result_main =
                [JStr ''https://p3-aio.ecombdimg.com/obj/img-1.jpg'',
                 JStr ''https://p3-aio.ecombdimg.com/obj/img-2.jpg'',
                 JStr ''https://p3-aio.ecombdimg.com/obj/img-3.jpg'',
                 JStr ''https://p3-aio.ecombdimg.com/obj/img-4.jpg'',
                 JStr ''https://p3-aio.ecombdimg.com/obj/img-5.jpg''],
              result_detail =
                [JStr ''https://p3-aio.ecombdimg.com/obj/img-6.jpg'',
                 JStr ''https://p3-aio.ecombdimg.com/obj/img-7.jpg''],
              result_title = ''Shoes'', result_video = None\<rparr>"
    by code_simp
  show ?thesis
    using generic_key_fills_main_to_five
            [OF h1 h2 h3 h4 h5, where rest = "[]"]
    by (simp add: d v n f merge_in_dict_def del: extract_images_from_json.simps(1))
qed

text \<open>
  Claim C8. On the tree decoded from
  \<open>{"a":{"item":{"images":["https://p1-aio.ecombdimg.com/x.jpg"]}}}\<close>, the targeted
  search returns the dict under the key \<open>item\<close>, and the generic extraction on that dict
  yields a main-image list of exactly this one URL (no detail image, title or video).
\<close>

theorem router_data_scenario:
  "find_product_in_router
     (JObj [(''a'', JObj [(''item'',
        JObj [(''images'', JArr [JStr ''https://p1-aio.ecombdimg.com/x.jpg''])])])]) 0
   = Some (JObj [(''images'', JArr [JStr ''https://p1-aio.ecombdimg.com/x.jpg''])]) \<and>
   extract_images_from_json
     (JObj [(''images'', JArr [JStr ''https://p1-aio.ecombdimg.com/x.jpg''])]) 0
   = Inr (Some \<lparr>result_main = [JStr ''https://p1-aio.ecombdimg.com/x.jpg''],
                result_detail = [], result_title = [], result_video = None\<rparr>)"
  by code_simp

text \<open>
  Claim C7. The generic mode does not skip every unexpected node silently: a dict in an
  image list whose \<open>url\<close> is the number 5 reaches \<open>len(url)\<close> in the validity
  predicate, and the \<open>TypeError\<close> leaves \<open>_extract_images_from_json\<close>.
\<close>

theorem generic_mode_raises_on_number_url:
  "extract_images_from_json (JObj [(''images'', JArr [JObj [(''url'', JNum 5)]])]) 0
   = Inl TypeError"
  by code_simp

section \<open>Properties of the video parser\<close>

lemma video_url_v2_rewrites_both:
  "video_url_v2 (JObj [(''url_list'', JArr (JStr u # us))]) =
     Inr (JStr (replace ''playwm'' ''play'' (replace ''watermark=1'' ''watermark=0'' u)))"
  by (simp add: video_url_v2_def bind_def py_get_def dict_get_def py_replace_def)

lemma share_page_keeps_toggle:
  "share_page_video_url ''https://aweme.snssdk.com/aweme/v1/playwm/?video_id=v0200f&watermark=1''
   = ''https://aweme.snssdk.com/aweme/v1/play/?video_id=v0200f&watermark=1''"
  by code_simp

text \<open>
  Claim C1. \<open>_get_no_watermark_url\<close> on an aweme detail whose only play address has
  the toggle \<open>watermark=1\<close> and the path segment \<open>playwm\<close>: the toggle is rewritten to
  \<open>watermark=0\<close>, and the segment \<open>playwm\<close> is still there in the URL returned.
\<close>

theorem get_no_watermark_url_keeps_playwm:
  "get_no_watermark_url
     (JObj [(''video'', JObj [(''play_addr'', JObj [(''url_list'',
        JArr [JStr ''https://aweme.snssdk.com/aweme/v1/playwm/?video_id=v0200f&ratio=720p&watermark=1''])])])])
   = Inr (JStr ''https://aweme.snssdk.com/aweme/v1/playwm/?video_id=v0200f&ratio=720p&watermark=0'')"
  by code_simp

text \<open>
  Claim C2. The mobile-API strategy returns, and \<open>parse\<close> passes on as its result, a
  \<open>VideoInfo\<close> whose \<open>video_url\<close> is the empty string: here the API answers with
  status 0 and one item that has an id and no \<open>video\<close> entry.
\<close>

theorem mobile_api_success_with_empty_video_url:
  "parse
     (offline\<lparr>mobile_api_response := (\<lambda>i. Inr (JObj [(''status_code'', JNum 0),
        (''item_list'', JArr [JObj [(''aweme_id'', JStr ''7123456789012345678'')]])]))\<rparr>)
     ''https://www.douyin.com/video/7123456789012345678''
   = Inr \<lparr>video_id = JStr ''7123456789012345678'', title = JStr [], author = JStr [],
          author_id = JStr [], cover_url = JStr [], video_url = JStr [], music_url = JStr [],
          duration = JNum 0, create_time = JNum 0,
          statistics = [(''digg_count'', JNum 0), (''comment_count'', JNum 0),
                        (''share_count'', JNum 0), (''collect_count'', JNum 0)]\<rparr>"
  by code_simp

section \<open>Properties of the strategy chains\<close>

text \<open>
  Claim C3, as stated, fails: with every request failing, the video call ends with the
  exception of its last strategy, \<open>_parse_from_webpage\<close>, itself; and the product call,
  with both strategies returning \<open>None\<close>, ends with the fixed \<open>ValueError\<close>, which
  carries no list of attempts.
\<close>

theorem exhausted_chain_counterexample:
  "parse offline ''https://www.douyin.com/video/7123456789012345678''
     = parse_from_webpage offline ''7123456789012345678'' \<and>
   parse offline ''https://www.douyin.com/video/7123456789012345678''
     = Inl (Exception ''Failed to parse from webpage: connection failed'') \<and>
   parse_product (\<lambda>u i. None :: product_info option) (\<lambda>u i. None)
       ''https://haohuo.jinritemai.com/views/product/item2?id=3456789''
     = Inl CannotGetProductInfo"
  by code_simp

text \<open>
  Claim C3, amended. When both product strategies return \<open>None\<close>, the product call
  raises the \<open>ValueError\<close> "cannot get the product information"; when the share page,
  the mobile API and the web API give no result and \<open>_parse_from_webpage\<close> raises, the
  video call raises that same exception.
\<close>

theorem all_strategies_fail:
  assumes "extract_product_id purl = Inr pid"
    and "parse_with_playwright purl (if pid \<noteq> ''SHORT_LINK'' then pid else ''unknown'') = None"
    and "parse_html purl pid = None"
    and "(if str_in ''v.douyin.com'' vurl \<or> str_in ''vm.tiktok.com'' vurl
          then get_real_url ev vurl else Inr vurl) = Inr real_url"
    and "(if str_in ''iesdouyin.com/share/video/'' real_url
          then attempt (parse_from_share_page ev real_url) else None) = None"
    and "extract_video_id real_url = Some vid"
    and "attempt (bind (mobile_api_response ev vid) parse_from_mobile_api) = None"
    and "attempt (bind (web_api_response ev vid) web_api_step) = None"
    and "parse_from_webpage ev vid = Inl e"
  shows "parse_product parse_with_playwright parse_html purl = Inl CannotGetProductInfo \<and>
         parse ev vurl = Inl e"
proof
  show "parse_product parse_with_playwright parse_html purl = Inl CannotGetProductInfo"
    using assms(1-3) by (simp add: parse_product_def bind_def)
next
  show "parse ev vurl = Inl e"
    unfolding parse_def assms(4) using assms(5-9) by (simp add: bind_def)
qed

theorem all_strategies_fail_witness:
  "parse_product (\<lambda>u i. None :: product_info option) (\<lambda>u i. None)
       ''https://haohuo.jinritemai.com/views/product/item2?id=3456789''
     = Inl CannotGetProductInfo \<and>
   parse offline ''https://www.douyin.com/video/7123456789012345678''
     = Inl (Exception ''Failed to parse from webpage: connection failed'')"
proof (rule all_strategies_fail [where pid = "''3456789''" and vid = "''7123456789012345678''"
      and real_url = "''https://www.douyin.com/video/7123456789012345678''"])
  show "extract_product_id ''https://haohuo.jinritemai.com/views/product/item2?id=3456789''
        = Inr ''3456789''"
    by code_simp
  show "(if str_in ''v.douyin.com'' ''https://www.douyin.com/video/7123456789012345678'' \<or>
            str_in ''vm.tiktok.com'' ''https://www.douyin.com/video/7123456789012345678''
         then get_real_url offline ''https://www.douyin.com/video/7123456789012345678''
         else Inr ''https://www.douyin.com/video/7123456789012345678'')
        = Inr ''https://www.douyin.com/video/7123456789012345678''"
    by code_simp
  show "(if str_in ''iesdouyin.com/share/video/'' ''https://www.douyin.com/video/7123456789012345678''
         then attempt (parse_from_share_page offline ''https://www.douyin.com/video/7123456789012345678'')
         else None) = None"
    by code_simp
  show "extract_video_id ''https://www.douyin.com/video/7123456789012345678''
        = Some ''7123456789012345678''"
    by code_simp
  show "attempt (bind (mobile_api_response offline ''7123456789012345678'') parse_from_mobile_api) = None"
    by (simp add: offline_def bind_def attempt_def)
  show "attempt (bind (web_api_response offline ''7123456789012345678'') web_api_step) = None"
    by (simp add: offline_def bind_def attempt_def)
  show "parse_from_webpage offline ''7123456789012345678''
        = Inl (Exception ''Failed to parse from webpage: connection failed'')"
    by (simp add: offline_def)
qed simp_all

section \<open>Properties of identifier extraction\<close>

lemma str_in_trans:
  assumes "str_in p q" and "str_in q s"
  shows "str_in p s"
proof -
  from assms(1) obtain a b where q: "q = a @ p @ b" by (auto simp: str_in_iff)
  from assms(2) obtain c d where "s = c @ q @ d" by (auto simp: str_in_iff)
  then have "s = (c @ a) @ p @ (b @ d)" using q by simp
  then show ?thesis unfolding str_in_iff by blast
qed

lemma short_host_contains_host:
  "str_in ''v.douyin.com'' url \<Longrightarrow> str_in ''douyin.com'' url"
proof -
  have "str_in ''douyin.com'' ''v.douyin.com''" by simp
  then show "str_in ''v.douyin.com'' url \<Longrightarrow> str_in ''douyin.com'' url"
    by (rule str_in_trans)
qed

text \<open>
  Claim C4, as stated, fails for the video parser: a URL on \<open>www.douyin.com\<close> in which
  no identifier pattern matches ends the call with \<open>ValueError\<close>; there is no pending
  identifier.
\<close>

theorem video_id_missing_counterexample:
  "str_in ''douyin.com'' ''https://www.douyin.com/user/MS4wLjAB'' \<and>
   parse offline ''https://www.douyin.com/user/MS4wLjAB''
     = Inl (ValueError ''Cannot extract video ID from URL: https://www.douyin.com/user/MS4wLjAB'')"
  by code_simp

text \<open>
  Claim C4, amended. Product identifier extraction raises exactly when none of its
  patterns matches and the URL does not contain \<open>douyin.com\<close>; when none matches and
  the URL contains \<open>douyin.com\<close>, it returns the sentinel \<open>SHORT_LINK\<close>. The video call
  has no sentinel: when the share page gives no result and no pattern matches the
  resolved URL, it raises \<open>ValueError\<close>, whatever the host.
\<close>

theorem identifier_pending_or_fatal:
  assumes "(if str_in ''v.douyin.com'' vurl \<or> str_in ''vm.tiktok.com'' vurl
            then get_real_url ev vurl else Inr vurl) = Inr real_url"
    and "(if str_in ''iesdouyin.com/share/video/'' real_url
          then attempt (parse_from_share_page ev real_url) else None) = None"
    and "extract_video_id real_url = None"
  shows "((\<exists>e. extract_product_id url = Inl e) \<longleftrightarrow>
            (match_product_id url = None \<and> \<not> str_in ''douyin.com'' url)) \<and>
         (match_product_id url = None \<and> str_in ''douyin.com'' url \<longrightarrow>
            extract_product_id url = Inr ''SHORT_LINK'') \<and>
         parse ev vurl = Inl (ValueError (''Cannot extract video ID from URL: '' @ real_url))"
proof (intro conjI)
  show "(\<exists>e. extract_product_id url = Inl e) \<longleftrightarrow>
          (match_product_id url = None \<and> \<not> str_in ''douyin.com'' url)"
    using short_host_contains_host [of url]
    by (auto simp: extract_product_id_def split: option.splits)
next
  show "match_product_id url = None \<and> str_in ''douyin.com'' url \<longrightarrow>
          extract_product_id url = Inr ''SHORT_LINK''"
    by (simp add: extract_product_id_def)
next
  show "parse ev vurl = Inl (ValueError (''Cannot extract video ID from URL: '' @ real_url))"
    unfolding parse_def assms(1) using assms(2,3) by (simp add: bind_def)
qed

theorem identifier_pending_or_fatal_witness:
  "extract_product_id ''https://v.douyin.com/iAbCdEf/'' = Inr ''SHORT_LINK'' \<and>
   (\<exists>e. extract_product_id ''https://haohuo.jinritemai.com/views/product/item2'' = Inl e) \<and>
   parse offline ''https://www.iesdouyin.com/share/video/''
     = Inl (ValueError ''Cannot extract video ID from URL: https://www.iesdouyin.com/share/video/'')"
proof -
  have a1: "(if str_in ''v.douyin.com'' ''https://www.iesdouyin.com/share/video/'' \<or>
                str_in ''vm.tiktok.com'' ''https://www.iesdouyin.com/share/video/''
             then get_real_url offline ''https://www.iesdouyin.com/share/video/''
             else Inr ''https://www.iesdouyin.com/share/video/'')
            = Inr ''https://www.iesdouyin.com/share/video/''"
    by code_simp
  have a2: "(if str_in ''iesdouyin.com/share/video/'' ''https://www.iesdouyin.com/share/video/''
             then attempt (parse_from_share_page offline ''https://www.iesdouyin.com/share/video/'')
             else None) = None"
    by (simp add: offline_def attempt_def)
  have a3: "extract_video_id ''https://www.iesdouyin.com/share/video/'' = None"
    by code_simp
  have m1: "match_product_id ''https://v.douyin.com/iAbCdEf/'' = None"
    by code_simp
  have s1: "str_in ''douyin.com'' ''https://v.douyin.com/iAbCdEf/''"
    by code_simp
  have m2: "match_product_id ''https://haohuo.jinritemai.com/views/product/item2'' = None"
    by code_simp
  have s2: "\<not> str_in ''douyin.com'' ''https://haohuo.jinritemai.com/views/product/item2''"
    by code_simp
  from identifier_pending_or_fatal [OF a1 a2 a3, of "''https://v.douyin.com/iAbCdEf/''"] m1 s1
  have w1: "extract_product_id ''https://v.douyin.com/iAbCdEf/'' = Inr ''SHORT_LINK''"
    and w3: "parse offline ''https://www.iesdouyin.com/share/video/''
     = Inl (ValueError ''Cannot extract video ID from URL: https://www.iesdouyin.com/share/video/'')"
    by simp_all
  from identifier_pending_or_fatal
         [OF a1 a2 a3, of "''https://haohuo.jinritemai.com/views/product/item2''"] m2 s2
  have w2: "\<exists>e. extract_product_id ''https://haohuo.jinritemai.com/views/product/item2'' = Inl e"
    by blast
  from w1 w2 w3 show ?thesis by blast
qed

section \<open>Properties of the classification\<close>

lemma classify_loop_playwright_filter:
  "classify_loop_playwright xs (m, d) =
     (m @ filter (\<lambda>u. list_ex (\<lambda>kw. str_in kw (lower u)) playwright_keywords) xs,
      d @ filter (\<lambda>u. \<not> list_ex (\<lambda>kw. str_in kw (lower u)) playwright_keywords) xs)"
  by (induction xs arbitrary: m d) simp_all

lemma classify_loop_html_filter:
  "classify_loop_html xs (m, d) =
     (m @ filter (\<lambda>u. list_ex (\<lambda>kw. str_in kw u) html_keywords) xs,
      d @ filter (\<lambda>u. \<not> list_ex (\<lambda>kw. str_in kw u) html_keywords) xs)"
  by (induction xs arbitrary: m d) simp_all

lemma promote_first_five:
  "d \<noteq> [] \<Longrightarrow> promote ([], d) = (take 5 d, drop 5 d)"
  by (simp add: promote_def)

text \<open>
  Claim C5. In the static-HTML strategy a URL containing the keyword \<open>origin\<close> is
  classified as a detail image, where the rendered-DOM strategy classifies it as a main
  image. Both URLs pass the validity predicate, so both reach the classification.
\<close>

theorem classify_html_origin_is_detail:
  "is_valid_product_image (JStr ''https://p3-aio.ecombdimg.com/main/a.jpg'') = Inr True \<and>
   is_valid_product_image (JStr ''https://p3-aio.ecombdimg.com/origin/b.jpg'') = Inr True \<and>
   classify_html [''https://p3-aio.ecombdimg.com/main/a.jpg'',
                  ''https://p3-aio.ecombdimg.com/origin/b.jpg'']
     = ([''https://p3-aio.ecombdimg.com/main/a.jpg''],
        [''https://p3-aio.ecombdimg.com/origin/b.jpg'']) \<and>
   classify_playwright [''https://p3-aio.ecombdimg.com/main/a.jpg'',
                        ''https://p3-aio.ecombdimg.com/origin/b.jpg'']
     = ([''https://p3-aio.ecombdimg.com/main/a.jpg'',
         ''https://p3-aio.ecombdimg.com/origin/b.jpg''], [])"
  by code_simp

end
